theory Spec2Isabelle
  imports Complex_Main "HOL-Library.Multiset"
begin

section \<open>The training engine of \<open>mattersim/forcefield/potential.py\<close>\<close>

text \<open>
  The class \<open>Potential\<close> wraps an energy model. Floating-point tensors are idealised as
  lists of real numbers; the calls into torch that the class only forwards to (the
  energy network, reverse-mode differentiation, the loss function, an epoch of
  optimisation) are parameters of the definitions below. Every raise of the class is a
  value \<open>Inl e\<close>.
\<close>

datatype error =
  NotImplementedError | KeyError | IndexError | ValueError | AssertionError
  | AttributeError | ZeroDivisionError | RuntimeError | StopIteration | UnboundLocalError
  | TypeError | FileNotFoundError

subsection \<open>Exponential moving average of the weights\<close>

text \<open>
  An \<open>ExponentialMovingAverage\<close> holds the shadow weights and the weights put aside by
  \<open>store\<close>. Its state dictionary is this record.
\<close>

record 'w ema =
  decay :: real
  shadow_params :: 'w
  collected_params :: "'w option"

text \<open>An optimizer or scheduler with the state its \<open>state_dict()\<close> exposes
  (\<open>None\<close>: as constructed).\<close>

datatype 'sd optimizer = Adam real real "'sd option"

datatype 'sd scheduler = StepLR int real "'sd option" | ReduceLROnPlateau real int

subsection \<open>Checkpoint records and the file system\<close>

text \<open>
  An entry of a checkpoint that should be a state dictionary: the dictionary itself, an
  object with a \<open>state_dict()\<close> method (\<open>None\<close> when the call raises), or anything else.
\<close>

datatype 'x entry = State_dict 'x | Object "'x option" | Junk

text \<open>A checkpoint is a dictionary; a field is \<open>None\<close> when its key is missing.\<close>

record ('w, 'a, 'sd) checkpoint =
  ck_model_name :: "string option"
  ck_model :: "'w option"
  ck_model_args :: "'a option"
  ck_optimizer :: "'sd optimizer entry option"
  ck_ema :: "'w ema entry option"
  ck_scheduler :: "'sd scheduler entry option"
  ck_last_epoch :: "int option"
  ck_validation_metrics :: "(string \<times> real) list option"
  ck_description :: "string option"

record ('w, 'a, 'sd) potential =
  params :: 'w
  model_args :: 'a
  training :: bool
  optimizer :: "'sd optimizer"
  scheduler :: "'sd scheduler"
  ema :: "'w ema"
  model_name :: string
  validation_metrics :: "(string \<times> real) list"
  last_epoch :: int
  description :: string
  best_metric :: real
  rank :: "int option"
  idx :: "nat option"

text \<open>The files \<open>save_model\<close> and \<open>save_model_ddp\<close> name inside \<open>save_path\<close>:
  \<open>best_model.pth\<close>, \<open>last_model.pth\<close> and \<open>ckpt_{epoch}.pth\<close>.\<close>

datatype ckpt_file = Best_model | Last_model | Ckpt int

type_synonym path = "string \<times> ckpt_file"

text \<open>The file system: the record stored under each path, and the writes made so far
  (path and record written), oldest first.\<close>

record ('w, 'a, 'sd) fs =
  files :: "path \<Rightarrow> ('w, 'a, 'sd) checkpoint option"
  writes :: "(path \<times> ('w, 'a, 'sd) checkpoint) list"

definition saved_name :: "string list" where
  "saved_name = [''loss'', ''MAE_energy'', ''MAE_force'', ''MAE_stress'']"

definition metric_names :: "string list" where
  "metric_names = [''val_loss'', ''val_mae_e'', ''val_mae_f'', ''val_mae_s'']"

text \<open>The record \<open>Potential.save\<close> writes: the state of the object at the time of the
  call.\<close>

definition checkpoint_of :: "('w, 'a, 'sd) potential \<Rightarrow> ('w, 'a, 'sd) checkpoint" where
  "checkpoint_of self =
     \<lparr>ck_model_name = Some (model_name self),
      ck_model = Some (params self),
      ck_model_args = Some (model_args self),
      ck_optimizer = Some (State_dict (optimizer self)),
      ck_ema = Some (State_dict (ema self)),
      ck_scheduler = Some (State_dict (scheduler self)),
      ck_last_epoch = Some (last_epoch self),
      ck_validation_metrics = Some (validation_metrics self),
      ck_description = Some (description self)\<rparr>"

text \<open>\<open>Potential.save\<close> on the path \<open>os.path.join(save_path, name)\<close>. Its first lines take
  the directory part of the path and create it when it does not exist; for an empty
  \<open>save_path\<close> the directory part is the empty string, \<open>os.path.exists\<close> answers no and
  \<open>os.makedirs\<close> raises FileNotFoundError before anything is written. Otherwise one
  complete record is written.\<close>

definition save ::
  "('w, 'a, 'sd) potential \<Rightarrow> path \<Rightarrow> ('w, 'a, 'sd) fs \<Rightarrow> error + ('w, 'a, 'sd) fs" where
  "save self p f =
     (if fst p = [] then Inl FileNotFoundError
      else Inr (f\<lparr>files := (files f)(p \<mapsto> checkpoint_of self),
                  writes := writes f @ [(p, checkpoint_of self)]\<rparr>))"

text \<open>Modelled from the spec: the context \<open>ema.average_parameters()\<close> of the torch_ema
  package, which is not part of this repository: "temporarily swap in the averaged
  parameters, restore afterward". Entering stores the raw weights and copies the shadow
  weights into the model; leaving copies the stored weights back.\<close>

definition average_parameters_enter ::
  "('w, 'a, 'sd) potential \<Rightarrow> ('w, 'a, 'sd) potential" where
  "average_parameters_enter self =
     self\<lparr>ema := (ema self)\<lparr>collected_params := Some (params self)\<rparr>,
          params := shadow_params (ema self)\<rparr>"

definition average_parameters_exit ::
  "('w, 'a, 'sd) potential \<Rightarrow> ('w, 'a, 'sd) potential" where
  "average_parameters_exit self =
     (case collected_params (ema self) of
        None \<Rightarrow> self
      | Some w \<Rightarrow> self\<lparr>params := w\<rparr>)"

subsection \<open>The single-process checkpoint step\<close>

text \<open>Python's \<open>xs[i]\<close> for a non-negative index; \<open>None\<close> stands for the IndexError.\<close>

definition py_nth :: "'x list \<Rightarrow> nat \<Rightarrow> 'x option" where
  "py_nth xs i = (if i < length xs then Some (xs ! i) else None)"

text \<open>\<open>best_model["validation_metrics"][self.saved_name[self.idx]]\<close>; \<open>None\<close> stands for
  any exception of the lookup.\<close>

definition best_value :: "('w, 'a, 'sd) checkpoint \<Rightarrow> nat option \<Rightarrow> real option" where
  "best_value best i =
     (case i of
        None \<Rightarrow> None
      | Some k \<Rightarrow>
          (case ck_validation_metrics best of
             None \<Rightarrow> None
           | Some vm \<Rightarrow>
               (case py_nth saved_name k of
                  None \<Rightarrow> None
                | Some name \<Rightarrow> map_of vm name)))"

text \<open>\<open>metric[self.idx]\<close>.\<close>

definition selected :: "real list \<Rightarrow> nat option \<Rightarrow> real option" where
  "selected metric i = (case i of None \<Rightarrow> None | Some k \<Rightarrow> py_nth metric k)"

text \<open>How the \<open>try\<close> block of \<open>save_model\<close> ends: with \<open>return True\<close>, by reaching its
  end, or with an exception; each with the file system as the block left it.\<close>

datatype ('w, 'a, 'sd) try_end =
  Returned "('w, 'a, 'sd) fs" | Completed "('w, 'a, 'sd) fs" | Raised "('w, 'a, 'sd) fs"

definition save_model_try ::
  "('w, 'a, 'sd) potential \<Rightarrow> ('w, 'a, 'sd) fs \<Rightarrow> int \<Rightarrow> int \<Rightarrow> string \<Rightarrow> string \<Rightarrow> bool
     \<Rightarrow> real list \<Rightarrow> ('w, 'a, 'sd) try_end" where
  "save_model_try self f epoch early_stop_patience save_path metric_name save_checkpoint metric =
     (case files f (save_path, Best_model) of
        None \<Rightarrow> Raised f
      | Some best_model \<Rightarrow>
          if metric_name \<notin> set metric_names then Raised f
          else
            (case (if save_checkpoint
                   then (case (selected metric (idx self), best_value best_model (idx self)) of
                           (Some m, Some b) \<Rightarrow>
                             if m < b
                             then (case save self (save_path, Best_model) f of
                                     Inl e \<Rightarrow> None
                                   | Inr f1 \<Rightarrow> Some f1)
                             else Some f
                         | _ \<Rightarrow> None)
                   else Some f) of
               None \<Rightarrow> Raised f
             | Some f1 \<Rightarrow>
                 (case ck_last_epoch best_model of
                    None \<Rightarrow> Raised f1
                  | Some e_best \<Rightarrow>
                      if epoch > e_best + early_stop_patience then Returned f1
                      else Completed f1)))"

text \<open>The periodic and the last checkpoint (lines 431 to 435, and 467 to 470 with
  \<open>write\<close> standing for rank 0 with persistence): the remainder \<open>epoch % ckpt_interval\<close>
  is taken first, then the two saves in order; the first exception ends the call.\<close>

definition save_periodic ::
  "('w, 'a, 'sd) potential \<Rightarrow> ('w, 'a, 'sd) fs \<Rightarrow> int \<Rightarrow> string \<Rightarrow> bool \<Rightarrow> int
     \<Rightarrow> (error + bool) \<times> ('w, 'a, 'sd) fs" where
  "save_periodic self f epoch save_path write ckpt_interval =
     (if write then
        if ckpt_interval = 0 then (Inl ZeroDivisionError, f)
        else
          (case (if epoch mod ckpt_interval = 0 then save self (save_path, Ckpt epoch) f
                 else Inr f) of
             Inl e \<Rightarrow> (Inl e, f)
           | Inr f1 \<Rightarrow>
               (case save self (save_path, Last_model) f1 of
                  Inl e \<Rightarrow> (Inl e, f1)
                | Inr f2 \<Rightarrow> (Inr False, f2)))
      else (Inr False, f))"

text \<open>\<open>Potential.save_model\<close>. The whole body runs inside \<open>ema.average_parameters()\<close>, which
  is left on every path. The result is what the call returns or raises, the object and
  the file system afterwards.\<close>

definition save_model ::
  "('w, 'a, 'sd) potential \<Rightarrow> ('w, 'a, 'sd) fs \<Rightarrow> int \<Rightarrow> int \<Rightarrow> string \<Rightarrow> string \<Rightarrow> bool
     \<Rightarrow> real list \<Rightarrow> int
     \<Rightarrow> (error + bool) \<times> ('w, 'a, 'sd) potential \<times> ('w, 'a, 'sd) fs" where
  "save_model self f epoch early_stop_patience save_path metric_name save_checkpoint metric
       ckpt_interval =
     (let self1 = average_parameters_enter self;
          done = average_parameters_exit self1
      in case save_model_try self1 f epoch early_stop_patience save_path metric_name
                save_checkpoint metric of
           Returned f1 \<Rightarrow> (Inr True, done, f1)
         | Completed f1 \<Rightarrow>
             (case save_periodic self1 f1 epoch save_path save_checkpoint ckpt_interval of
                (r, f2) \<Rightarrow> (r, done, f2))
         | Raised f1 \<Rightarrow>
             if save_checkpoint then
               (case save self1 (save_path, Best_model) f1 of
                  Inl e \<Rightarrow> (Inl e, done, f1)
                | Inr f2 \<Rightarrow>
                    (case save_periodic self1 f2 epoch save_path save_checkpoint ckpt_interval of
                       (r, f3) \<Rightarrow> (r, done, f3)))
             else (Inr False, done, f1))"

subsection \<open>The distributed checkpoint step\<close>

text \<open>\<open>Potential.save_model_ddp\<close>: the best metric lives in the object, only rank 0
  writes, and the call never returns \<open>True\<close>.\<close>

definition save_model_ddp ::
  "('w, 'a, 'sd) potential \<Rightarrow> ('w, 'a, 'sd) fs \<Rightarrow> int \<Rightarrow> int \<Rightarrow> string \<Rightarrow> string \<Rightarrow> bool
     \<Rightarrow> real list \<Rightarrow> int
     \<Rightarrow> (error + bool) \<times> ('w, 'a, 'sd) potential \<times> ('w, 'a, 'sd) fs" where
  "save_model_ddp self f epoch early_stop_patience save_path metric_name save_checkpoint metric
       ckpt_interval =
     (let self1 = average_parameters_enter self in
      if metric_name \<notin> set metric_names
      then (Inl AssertionError, average_parameters_exit self1, f)
      else
        (case idx self1 of
           None \<Rightarrow> (Inl AttributeError, average_parameters_exit self1, f)
         | Some k \<Rightarrow>
             (case py_nth metric k of
                None \<Rightarrow> (Inl IndexError, average_parameters_exit self1, f)
              | Some m \<Rightarrow>
                  (let better = (m < best_metric self1);
                       self2 = (if better then self1\<lparr>best_metric := m\<rparr> else self1)
                   in case (if better \<and> save_checkpoint \<and> rank self2 = Some 0
                            then save self2 (save_path, Best_model) f else Inr f) of
                        Inl e \<Rightarrow> (Inl e, average_parameters_exit self2, f)
                      | Inr f1 \<Rightarrow>
                          (case save_periodic self2 f1 epoch save_path
                                  (rank self2 = Some 0 \<and> save_checkpoint) ckpt_interval of
                             (r, f2) \<Rightarrow> (r, average_parameters_exit self2, f2))))))"

subsection \<open>Construction\<close>

text \<open>The keyword arguments \<open>Potential.__init__\<close> reads with \<open>kwargs.get\<close>; \<open>None\<close> when
  the caller did not pass the keyword.\<close>

record kwargs =
  kw_lr :: "real option"
  kw_step_size :: "int option"
  kw_gamma :: "real option"
  kw_factor :: "real option"
  kw_patience :: "int option"
  kw_ema_decay :: "real option"
  kw_model_name :: "string option"
  kw_validation_metrics :: "(string \<times> real) list option"
  kw_last_epoch :: "int option"
  kw_description :: "string option"

definition no_kwargs :: kwargs where
  "no_kwargs =
     \<lparr>kw_lr = None, kw_step_size = None, kw_gamma = None, kw_factor = None,
      kw_patience = None, kw_ema_decay = None, kw_model_name = None,
      kw_validation_metrics = None, kw_last_epoch = None, kw_description = None\<rparr>"

text \<open>Python's \<open>kwargs.get(key, default)\<close>.\<close>

definition get_or :: "'x option \<Rightarrow> 'x \<Rightarrow> 'x" where
  "get_or v d = (case v of None \<Rightarrow> d | Some x \<Rightarrow> x)"

text \<open>The \<open>scheduler\<close> argument: a name or a scheduler object.\<close>

datatype 'sd scheduler_arg = Name string | Instance "'sd scheduler"

text \<open>\<open>ExponentialMovingAverage(parameters, decay)\<close>: the shadow weights start as a copy
  of the model's.\<close>

definition ExponentialMovingAverage :: "'w \<Rightarrow> real \<Rightarrow> 'w ema" where
  "ExponentialMovingAverage w d = \<lparr>decay = d, shadow_params = w, collected_params = None\<rparr>"

text \<open>\<open>Potential.__init__\<close>. The model is given by its weights, its constructor arguments
  and its mode flag.\<close>

definition Potential ::
  "'w \<Rightarrow> 'a \<Rightarrow> bool \<Rightarrow> 'sd optimizer option \<Rightarrow> 'sd scheduler_arg \<Rightarrow> 'w ema option \<Rightarrow> kwargs
     \<Rightarrow> error + ('w, 'a, 'sd) potential" where
  "Potential w margs mode optimizer_arg scheduler_arg ema_arg kw =
     (let opt = (case optimizer_arg of
                   None \<Rightarrow> Adam (get_or (kw_lr kw) (1 / 1000)) (1 / 10000000) None
                 | Some opt \<Rightarrow> opt);
          sched =
            (case scheduler_arg of
               Instance sch \<Rightarrow> Inr sch
             | Name n \<Rightarrow>
                 if n = ''StepLR''
                 then Inr (StepLR (get_or (kw_step_size kw) 10) (get_or (kw_gamma kw) (95 / 100))
                             None)
                 else if n = ''ReduceLROnPlateau''
                 then Inr (ReduceLROnPlateau (get_or (kw_factor kw) (8 / 10))
                             (get_or (kw_patience kw) 50))
                 else Inl NotImplementedError)
      in case sched of
           Inl e \<Rightarrow> Inl e
         | Inr sch \<Rightarrow>
             Inr \<lparr>params = w, model_args = margs, training = mode, optimizer = opt,
                  scheduler = sch,
                  ema = (case ema_arg of
                           None \<Rightarrow> ExponentialMovingAverage w (get_or (kw_ema_decay kw) (99 / 100))
                         | Some e \<Rightarrow> e),
                  model_name = get_or (kw_model_name kw) ''m3gnet'',
                  validation_metrics =
                    get_or (kw_validation_metrics kw) [(''loss'', 10000)],
                  last_epoch = get_or (kw_last_epoch kw) (- 1),
                  description = get_or (kw_description kw) [],
                  best_metric = 10, rank = None, idx = None\<rparr>)"

subsection \<open>The epoch loop of \<open>train_model\<close>\<close>

text \<open>
  What \<open>train_model\<close> calls and this file does not define: one epoch of training followed
  by one of validation (the four validation metrics and the weights, optimizer and
  moving average it leaves, or an exception), the state \<open>StepLR.step()\<close> leaves for a
  given step size, decay and state, and \<open>torch.distributed.get_rank()\<close>.
\<close>

record ('w, 'a, 'sd) trainer =
  run_epoch ::
    "('w, 'a, 'sd) potential \<Rightarrow> int
       \<Rightarrow> error + ('w \<times> 'sd optimizer \<times> 'w ema) \<times> (real \<times> real \<times> real \<times> real)"
  step_lr :: "int \<Rightarrow> real \<Rightarrow> 'sd option \<Rightarrow> 'sd"
  get_rank :: int

text \<open>Lines 351 to 354. A \<open>ReduceLROnPlateau\<close> scheduler is stepped with \<open>metric\<close>, which
  is the tuple of four numbers \<open>train_one_epoch\<close> returned; the scheduler converts its
  argument with \<open>float\<close>, which raises TypeError on a tuple. Any other scheduler is
  stepped without an argument.\<close>

definition scheduler_step ::
  "('w, 'a, 'sd) trainer \<Rightarrow> 'sd scheduler \<Rightarrow> real \<times> real \<times> real \<times> real
     \<Rightarrow> error + 'sd scheduler" where
  "scheduler_step env sch metric =
     (case sch of
        ReduceLROnPlateau factor patience \<Rightarrow> Inl TypeError
      | StepLR step_size gamma sd \<Rightarrow>
          Inr (StepLR step_size gamma (Some (step_lr env step_size gamma sd))))"

record train_args =
  arg_epochs :: int
  arg_early_stop_patience :: int
  arg_metric_name :: string
  arg_save_checkpoint :: bool
  arg_save_path :: string
  arg_ckpt_interval :: int
  arg_is_distributed :: bool

text \<open>Python's \<open>xs.index(x)\<close>; \<open>None\<close> stands for the ValueError.\<close>

fun index_of :: "'x list \<Rightarrow> 'x \<Rightarrow> nat option" where
  "index_of [] x = None"
| "index_of (y # ys) x = (if y = x then Some 0 else map_option Suc (index_of ys x))"

definition metric_list :: "real \<times> real \<times> real \<times> real \<Rightarrow> real list" where
  "metric_list m = (case m of (a, b, c, d) \<Rightarrow> [a, b, c, d])"

text \<open>The body of the loop for one epoch: the result of the checkpoint step (\<open>True\<close>
  breaks the loop), the object and the file system afterwards.\<close>

definition train_epoch ::
  "('w, 'a, 'sd) trainer \<Rightarrow> train_args \<Rightarrow> ('w, 'a, 'sd) potential \<Rightarrow> ('w, 'a, 'sd) fs \<Rightarrow> int
     \<Rightarrow> (error + bool) \<times> ('w, 'a, 'sd) potential \<times> ('w, 'a, 'sd) fs" where
  "train_epoch env args self f epoch =
     (case run_epoch env self epoch of
        Inl e \<Rightarrow> (Inl e, self, f)
      | Inr ((w, opt, avg), metric) \<Rightarrow>
          (let self1 = self\<lparr>params := w, optimizer := opt, ema := avg, training := False\<rparr>
           in case scheduler_step env (scheduler self1) metric of
                Inl e \<Rightarrow> (Inl e, self1, f)
              | Inr sch \<Rightarrow>
                  (let self2 = self1\<lparr>scheduler := sch, last_epoch := epoch,
                         validation_metrics := zip saved_name (metric_list metric)\<rparr>
                   in (if arg_is_distributed args then save_model_ddp else save_model)
                        self2 f epoch (arg_early_stop_patience args) (arg_save_path args)
                        (arg_metric_name args) (arg_save_checkpoint args) (metric_list metric)
                        (arg_ckpt_interval args))))"

function train_loop ::
  "('w, 'a, 'sd) trainer \<Rightarrow> train_args \<Rightarrow> ('w, 'a, 'sd) potential \<Rightarrow> ('w, 'a, 'sd) fs \<Rightarrow> int
     \<Rightarrow> (error + bool) \<times> ('w, 'a, 'sd) potential \<times> ('w, 'a, 'sd) fs" where
  "train_loop env args self f epoch =
     (if epoch < arg_epochs args then
        (case train_epoch env args self f epoch of
           (Inr False, self1, f1) \<Rightarrow> train_loop env args self1 f1 (epoch + 1)
         | r \<Rightarrow> r)
      else (Inr False, self, f))"
  by pat_completeness auto
termination
  by (relation "measure (\<lambda>(env, args, self, f, epoch). nat (arg_epochs args - epoch))") auto

declare train_loop.simps [simp del]

text \<open>\<open>Potential.train_model\<close>: the result is \<open>Inr True\<close> when the loop was left by the
  \<open>break\<close> of early stopping, \<open>Inr False\<close> when it ran to its end.\<close>

definition train_model ::
  "('w, 'a, 'sd) trainer \<Rightarrow> train_args \<Rightarrow> ('w, 'a, 'sd) potential \<Rightarrow> ('w, 'a, 'sd) fs
     \<Rightarrow> (error + bool) \<times> ('w, 'a, 'sd) potential \<times> ('w, 'a, 'sd) fs" where
  "train_model env args self f =
     (case index_of metric_names (arg_metric_name args) of
        None \<Rightarrow> (Inl ValueError, self, f)
      | Some k \<Rightarrow>
          (let self1 = self\<lparr>idx := Some k\<rparr>;
               self2 = (if arg_is_distributed args then self1\<lparr>rank := Some (get_rank env)\<rparr>
                        else self1)
           in train_loop env args self2 f (last_epoch self2 + 1)))"

subsection \<open>The best checkpoint on record, as the specification words it\<close>

text \<open>
  The specification of the single-process checkpoint step reads: "load the existing
  best-checkpoint record if present; if the configured metric improved relative to it,
  overwrite the best checkpoint. If the current epoch exceeds the best-recorded epoch plus
  the patience window, signal early stop. If no best checkpoint exists yet (first run or
  read failure), save unconditionally." The definitions of this subsection follow that
  wording and not the code; they are what the epoch loop of \<open>train_model\<close> is compared
  with.

  What a best checkpoint on record says to the step: the epoch it was saved at and, when
  the record carries it, its value of the selected metric. \<open>None\<close>: there is no file, or
  the file names no epoch.
\<close>

type_synonym best_record = "(int \<times> real option) option"



text \<open>The record after the step of an epoch whose selected validation metric is
  \<open>v epoch\<close>: overwritten when the metric improved on it, saved unconditionally when there
  was none to compare with, and left alone without persistence.\<close>

definition record_step :: "bool \<Rightarrow> (int \<Rightarrow> real) \<Rightarrow> best_record \<Rightarrow> int \<Rightarrow> best_record" where
  "record_step save_checkpoint v r epoch =
     (if save_checkpoint then
        (case r of
           Some (e_best, Some b) \<Rightarrow> if v epoch < b then Some (epoch, Some (v epoch)) else r
         | _ \<Rightarrow> Some (epoch, Some (v epoch)))
      else r)"

text \<open>The record at the beginning of epoch \<open>epoch\<close> of a run that started at epoch
  \<open>first\<close> with the record \<open>r\<close>, and the first epoch below \<open>epochs\<close> that is overdue against
  the record it finds.\<close>

definition record_at ::
  "bool \<Rightarrow> (int \<Rightarrow> real) \<Rightarrow> best_record \<Rightarrow> int \<Rightarrow> int \<Rightarrow> best_record" where
  "record_at save_checkpoint v r first epoch =
     foldl (record_step save_checkpoint v) r [first..epoch - 1]"


subsection \<open>Tensors\<close>

text \<open>
  The tensors \<open>forward\<close> handles: per-structure scalars (shape \<open>B\<close>), per-atom vectors (shape
  \<open>N \<times> 3\<close>) and per-structure matrices (shape \<open>B \<times> 3 \<times> 3\<close>), over the reals.
\<close>

type_synonym vec3 = "real \<times> real \<times> real"

type_synonym mat3 = "vec3 \<times> vec3 \<times> vec3"

datatype tval = Scalars "real list" | Vecs "vec3 list" | Mats "mat3 list"

definition vec_map :: "(real \<Rightarrow> real) \<Rightarrow> vec3 \<Rightarrow> vec3" where
  "vec_map g v = (case v of (x, y, z) \<Rightarrow> (g x, g y, g z))"

definition mat_map :: "(real \<Rightarrow> real) \<Rightarrow> mat3 \<Rightarrow> mat3" where
  "mat_map g m = (case m of (r1, r2, r3) \<Rightarrow> (vec_map g r1, vec_map g r2, vec_map g r3))"

definition vec_add :: "vec3 \<Rightarrow> vec3 \<Rightarrow> vec3" where
  "vec_add u v = (case (u, v) of ((a, b, c), (x, y, z)) \<Rightarrow> (a + x, b + y, c + z))"

definition mat_add :: "mat3 \<Rightarrow> mat3 \<Rightarrow> mat3" where
  "mat_add m n =
     (case (m, n) of ((r1, r2, r3), (s1, s2, s3)) \<Rightarrow> (vec_add r1 s1, vec_add r2 s2, vec_add r3 s3))"

definition eye3 :: mat3 where
  "eye3 = ((1, 0, 0), (0, 1, 0), (0, 0, 1))"

definition zero3 :: mat3 where
  "zero3 = ((0, 0, 0), (0, 0, 0), (0, 0, 0))"

text \<open>Row vector times matrix: \<open>out[j] = sum_i v[i] * m[i][j]\<close>.\<close>

definition vec_mat :: "vec3 \<Rightarrow> mat3 \<Rightarrow> vec3" where
  "vec_mat v m =
     (case (v, m) of
        ((a, b, c), ((m11, m12, m13), (m21, m22, m23), (m31, m32, m33))) \<Rightarrow>
          (a * m11 + b * m21 + c * m31,
           a * m12 + b * m22 + c * m32,
           a * m13 + b * m23 + c * m33))"

definition mat_mul :: "mat3 \<Rightarrow> mat3 \<Rightarrow> mat3" where
  "mat_mul m n = (case m of (r1, r2, r3) \<Rightarrow> (vec_mat r1 n, vec_mat r2 n, vec_mat r3 n))"

definition det3 :: "mat3 \<Rightarrow> real" where
  "det3 m =
     (case m of
        ((a, b, c), (d, e, f), (g, h, i)) \<Rightarrow>
          a * (e * i - f * h) - b * (d * i - f * g) + c * (d * h - e * g))"

text \<open>
  A tensor in a differentiation graph: its values, its \<open>requires_grad\<close> flag and the graph
  node it is. A node is a tensor the caller supplied, a tensor \<open>forward\<close> creates, or the
  result of an operation on nodes.
\<close>

datatype node = Leaf string | Fresh string | Op string "node list"

record 'v tensor =
  data :: 'v
  requires_grad :: bool
  node :: node

text \<open>The input dictionary of \<open>forward\<close>; the fields the class itself reads, and the rest
  (offsets, attributes, edge and three-body indices, counts) as \<open>others\<close>.\<close>

record 'x input =
  atom_pos :: "vec3 list tensor"
  cell :: "mat3 list tensor"
  num_atoms :: "int list"
  others :: 'x

text \<open>What \<open>forward\<close> does to tensors and asks of torch, in program order.\<close>

datatype event =
  Requires_grad node
  | Assign string node
  | Model_forward node node int
  | Autograd_grad node "node list" bool

subsection \<open>Tensor operations of torch used by \<open>forward\<close>\<close>

definition zeros_like :: "mat3 list tensor \<Rightarrow> string \<Rightarrow> mat3 list tensor" where
  "zeros_like t name =
     \<lparr>data = map (\<lambda>m. zero3) (data t), requires_grad = False, node = Fresh name\<rparr>"

definition set_requires_grad :: "'v tensor \<Rightarrow> 'v tensor" where
  "set_requires_grad t = t\<lparr>requires_grad := True\<rparr>"

definition det :: "mat3 list tensor \<Rightarrow> real list" where
  "det t = map det3 (data t)"

text \<open>\<open>torch.eye(3)[None, ...] + t\<close>.\<close>

definition eye_plus :: "mat3 list tensor \<Rightarrow> mat3 list tensor" where
  "eye_plus t =
     \<lparr>data = map (mat_add eye3) (data t), requires_grad = requires_grad t,
      node = Op ''add'' [Fresh ''eye'', node t]\<rparr>"

text \<open>\<open>torch.matmul\<close> of two batches of matrices and \<open>torch.einsum("bi, bij -> bj", ...)\<close>.
  A batch dimension of size one is broadcast; other sizes must agree.\<close>

definition broadcast2 :: "('p \<Rightarrow> 'q \<Rightarrow> 'r) \<Rightarrow> 'p list \<Rightarrow> 'q list \<Rightarrow> error + 'r list" where
  "broadcast2 g xs ys =
     (if length xs = length ys then Inr (map2 g xs ys)
      else if length xs = 1 then Inr (map (g (hd xs)) ys)
      else if length ys = 1 then Inr (map (\<lambda>x. g x (hd ys)) xs)
      else Inl RuntimeError)"

definition matmul :: "mat3 list tensor \<Rightarrow> mat3 list tensor \<Rightarrow> error + mat3 list tensor" where
  "matmul s t =
     (case broadcast2 mat_mul (data s) (data t) of
        Inl e \<Rightarrow> Inl e
      | Inr ms \<Rightarrow>
          Inr \<lparr>data = ms, requires_grad = (requires_grad s \<or> requires_grad t),
               node = Op ''matmul'' [node s, node t]\<rparr>)"

definition einsum_bi_bij_bj ::
  "vec3 list tensor \<Rightarrow> mat3 list tensor \<Rightarrow> error + vec3 list tensor" where
  "einsum_bi_bij_bj s t =
     (case broadcast2 vec_mat (data s) (data t) of
        Inl e \<Rightarrow> Inl e
      | Inr vs \<Rightarrow>
          Inr \<lparr>data = vs, requires_grad = (requires_grad s \<or> requires_grad t),
               node = Op ''einsum bi, bij -> bj'' [node s, node t]\<rparr>)"

text \<open>\<open>torch.repeat_interleave(t, repeats, dim=0)\<close>: element \<open>i\<close> is repeated \<open>repeats[i]\<close>
  times; a single repeat count applies to every element; a negative count is refused.\<close>

definition repeat_interleave :: "'v list \<Rightarrow> int list \<Rightarrow> error + 'v list" where
  "repeat_interleave xs repeats =
     (if list_ex (\<lambda>r. r < 0) repeats then Inl RuntimeError
      else if length repeats = length xs
      then Inr (concat (map2 (\<lambda>x r. replicate (nat r) x) xs repeats))
      else if length repeats = 1
      then Inr (concat (map (replicate (nat (hd repeats))) xs))
      else Inl RuntimeError)"

definition tneg :: "tval \<Rightarrow> tval" where
  "tneg t =
     (case t of
        Scalars xs \<Rightarrow> Scalars (map uminus xs)
      | Vecs vs \<Rightarrow> Vecs (map (vec_map uminus) vs)
      | Mats ms \<Rightarrow> Mats (map (mat_map uminus) ms))"

text \<open>\<open>1 / volume[:, None, None] * stress_grad * 160.21766208\<close>, evaluated left to right.
  \<open>torch.autograd.grad\<close> returns a gradient of the shape of the tensor differentiated, here
  of the strain: one matrix per structure. Other shapes are answered with an exception.\<close>

definition stress_of :: "real list \<Rightarrow> tval \<Rightarrow> error + tval" where
  "stress_of volume stress_grad =
     (case stress_grad of
        Mats gs \<Rightarrow>
          if length gs = length volume
          then Inr (Mats (map2 (\<lambda>v g. mat_map (\<lambda>x. 1 / v * x * (16021766208 / 100000000)) g)
                             volume gs))
          else Inl RuntimeError
      | _ \<Rightarrow> Inl RuntimeError)"

subsection \<open>The strain rewrite and \<open>forward\<close>\<close>

text \<open>
  What \<open>forward\<close> calls and this file does not define: the energy model
  (\<open>self.model.forward\<close>, one energy per structure, or an exception) and
  \<open>torch.autograd.grad\<close> (given the weights, the input, the head index, the output node,
  the nodes to differentiate by and \<open>create_graph\<close>: one optional gradient per node, or
  an exception).
\<close>

record ('w, 'x) torch =
  model_forward :: "'w \<Rightarrow> 'x input \<Rightarrow> int \<Rightarrow> error + real list"
  autograd_grad ::
    "'w \<Rightarrow> 'x input \<Rightarrow> int \<Rightarrow> node \<Rightarrow> node list \<Rightarrow> bool \<Rightarrow> error + tval option list"

text \<open>Lines 945 to 958 of \<open>forward\<close>, for a strain tensor \<open>strain\<close>: the strain is marked
  differentiable, the cell and the positions are rewritten in the dictionary, and the
  volume is taken from the rewritten cell. The result is the strain, the dictionary and
  the volume.\<close>

definition apply_strain ::
  "mat3 list tensor \<Rightarrow> 'x input
     \<Rightarrow> error + mat3 list tensor \<times> 'x input \<times> real list" where
  "apply_strain strain0 inp =
     (let strain = set_requires_grad strain0 in
      case matmul (cell inp) (eye_plus strain) of
        Inl e \<Rightarrow> Inl e
      | Inr cell' \<Rightarrow>
          (case repeat_interleave (data strain) (num_atoms inp) of
             Inl e \<Rightarrow> Inl e
           | Inr aug \<Rightarrow>
               (let strain_augment =
                      \<lparr>data = aug, requires_grad = requires_grad strain,
                       node = Op ''repeat_interleave'' [node strain, Leaf ''num_atoms'']\<rparr>
                in case einsum_bi_bij_bj (atom_pos inp) (eye_plus strain_augment) of
                     Inl e \<Rightarrow> Inl e
                   | Inr pos' \<Rightarrow>
                       (let inp' = inp\<lparr>cell := cell', atom_pos := pos'\<rparr>
                        in Inr (strain, inp', det (cell inp'))))))"

type_synonym outputs = "string \<rightharpoonup> tval"

text \<open>\<open>Potential.forward\<close>. The result is the output dictionary, the input dictionary as
  the call leaves it, and the events of the call.\<close>

definition forward ::
  "('w, 'x) torch \<Rightarrow> ('w, 'a, 'sd) potential \<Rightarrow> 'x input \<Rightarrow> bool \<Rightarrow> bool \<Rightarrow> int
     \<Rightarrow> error + outputs \<times> 'x input \<times> event list" where
  "forward env self inp include_forces include_stresses dataset_idx =
     (if model_name self = ''graphormer'' \<or> model_name self = ''geomformer''
      then Inl NotImplementedError
      else
        (let strain0 = zeros_like (cell inp) ''strain'';
             volume0 = det (cell inp);
             inp1 = (if include_forces
                     then inp\<lparr>atom_pos := set_requires_grad (atom_pos inp)\<rparr> else inp);
             tr1 = (if include_forces then [Requires_grad (node (atom_pos inp))] else [])
         in case (if include_stresses then apply_strain strain0 inp1
                  else Inr (strain0, inp1, volume0)) of
              Inl e \<Rightarrow> Inl e
            | Inr (strain, inp2, volume) \<Rightarrow>
                (let tr2 = tr1 @ (if include_stresses
                                  then [Requires_grad (node strain),
                                        Assign ''cell'' (node (cell inp2)),
                                        Assign ''atom_pos'' (node (atom_pos inp2))]
                                  else []);
                     energies_node = Op ''model'' [node (atom_pos inp2), node (cell inp2)];
                     tr3 = tr2 @ [Model_forward (node (atom_pos inp2)) (node (cell inp2))
                                    dataset_idx]
                 in case model_forward env (params self) inp2 dataset_idx of
                      Inl e \<Rightarrow> Inl e
                    | Inr energies \<Rightarrow>
                        (let output = [''total_energy'' \<mapsto> Scalars energies] in
                         if include_forces \<and> \<not> include_stresses then
                           (case autograd_grad env (params self) inp2 dataset_idx energies_node
                                   [node (atom_pos inp2)] (training self) of
                              Inl e \<Rightarrow> Inl e
                            | Inr grad \<Rightarrow>
                                (case py_nth grad 0 of
                                   None \<Rightarrow> Inl IndexError
                                 | Some force_grad \<Rightarrow>
                                     Inr ((case force_grad of
                                             None \<Rightarrow> output
                                           | Some g \<Rightarrow> output(''forces'' \<mapsto> tneg g)),
                                          inp2,
                                          tr3 @ [Autograd_grad energies_node
                                                   [node (atom_pos inp2)] (training self)])))
                         else if include_forces \<and> include_stresses then
                           (case autograd_grad env (params self) inp2 dataset_idx energies_node
                                   [node (atom_pos inp2), node strain] (training self) of
                              Inl e \<Rightarrow> Inl e
                            | Inr grad \<Rightarrow>
                                (case (py_nth grad 0, py_nth grad 1) of
                                   (Some force_grad, Some stress_grad) \<Rightarrow>
                                     (let output1 =
                                            (case force_grad of
                                               None \<Rightarrow> output
                                             | Some g \<Rightarrow> output(''forces'' \<mapsto> tneg g));
                                          tr4 = tr3 @ [Autograd_grad energies_node
                                                         [node (atom_pos inp2), node strain]
                                                         (training self)]
                                      in case stress_grad of
                                           None \<Rightarrow> Inr (output1, inp2, tr4)
                                         | Some g \<Rightarrow>
                                             (case stress_of volume g of
                                                Inl e \<Rightarrow> Inl e
                                              | Inr stresses \<Rightarrow>
                                                  Inr (output1(''stresses'' \<mapsto> stresses), inp2,
                                                       tr4)))
                                 | _ \<Rightarrow> Inl IndexError))
                         else Inr (output, inp2, tr3)))))"

fun is_autograd :: "event \<Rightarrow> bool" where
  "is_autograd (Autograd_grad out ins create_graph) = True"
| "is_autograd ev = False"

text \<open>The structure that owns atom \<open>k\<close> when the atoms of a batch are laid out structure
  after structure with the given per-structure counts.\<close>

fun owner :: "int list \<Rightarrow> nat \<Rightarrow> nat" where
  "owner [] k = 0"
| "owner (n # ns) k = (if k < nat n then 0 else Suc (owner ns (k - nat n)))"

subsection \<open>Loss and metrics\<close>

text \<open>Sequencing of calls that may raise.\<close>

definition and_then :: "error + 'p \<Rightarrow> ('p \<Rightarrow> error + 'q) \<Rightarrow> error + 'q" where
  "and_then r k = (case r of Inl e \<Rightarrow> Inl e | Inr x \<Rightarrow> k x)"

text \<open>A batch as the data loader yields it: the fields \<open>batch_to_dict\<close> copies into the
  input dictionary, and the ground truth.\<close>

record 'x graph_batch =
  batch_input :: "'x input"
  energy :: tval
  forces :: tval
  stress :: tval

definition batch_to_dict :: "'x graph_batch \<Rightarrow> 'x input" where
  "batch_to_dict graph_batch = batch_input graph_batch"

text \<open>Python's \<open>d[key]\<close> on a dictionary.\<close>

definition lookup :: "('k \<rightharpoonup> 'v) \<Rightarrow> 'k \<Rightarrow> error + 'v" where
  "lookup d key = (case d key of None \<Rightarrow> Inl KeyError | Some v \<Rightarrow> Inr v)"

text \<open>\<open>energies / num_atoms\<close>: one energy per structure divided by that structure's atom
  count. Energies are per-structure scalars; other shapes are answered with an
  exception.\<close>

definition per_atom :: "tval \<Rightarrow> int list \<Rightarrow> error + tval" where
  "per_atom t counts =
     (case t of
        Scalars xs \<Rightarrow>
          (case broadcast2 (\<lambda>x n. x / real_of_int n) xs counts of
             Inl e \<Rightarrow> Inl e
           | Inr ys \<Rightarrow> Inr (Scalars ys))
      | _ \<Rightarrow> Inl RuntimeError)"

definition flatten :: "tval \<Rightarrow> real list" where
  "flatten t =
     (case t of
        Scalars xs \<Rightarrow> xs
      | Vecs vs \<Rightarrow> concat (map (\<lambda>(x, y, z). [x, y, z]) vs)
      | Mats ms \<Rightarrow> concat (map (\<lambda>((a, b, c), (d, e, f), (g, h, i)). [a, b, c, d, e, f, g, h, i])
                              ms))"

definition same_shape :: "tval \<Rightarrow> tval \<Rightarrow> bool" where
  "same_shape s t =
     (case (s, t) of
        (Scalars xs, Scalars ys) \<Rightarrow> length xs = length ys
      | (Vecs xs, Vecs ys) \<Rightarrow> length xs = length ys
      | (Mats xs, Mats ys) \<Rightarrow> length xs = length ys
      | _ \<Rightarrow> False)"

text \<open>\<open>torch.nn.L1Loss()\<close> and \<open>torch.nn.MSELoss()\<close> on tensors of one shape: the mean over
  all elements of the absolute, respectively squared, difference.\<close>

definition L1Loss :: "tval \<Rightarrow> tval \<Rightarrow> error + real" where
  "L1Loss pred target =
     (if same_shape pred target
      then Inr (sum_list (map2 (\<lambda>p t. \<bar>p - t\<bar>) (flatten pred) (flatten target))
                / real (length (flatten pred)))
      else Inl RuntimeError)"

definition MSELoss :: "tval \<Rightarrow> tval \<Rightarrow> error + real" where
  "MSELoss pred target =
     (if same_shape pred target
      then Inr (sum_list (map2 (\<lambda>p t. (p - t) * (p - t)) (flatten pred) (flatten target))
                / real (length (flatten pred)))
      else Inl RuntimeError)"

text \<open>\<open>Potential.loss_calc\<close>: the scalar loss and the three mean absolute errors. Each
  block threads the loss so far and fills its own error slot.\<close>

definition loss_calc ::
  "('w, 'a, 'sd) potential \<Rightarrow> 'x graph_batch \<Rightarrow> outputs \<Rightarrow> (tval \<Rightarrow> tval \<Rightarrow> error + real)
     \<Rightarrow> bool \<Rightarrow> bool \<Rightarrow> bool \<Rightarrow> real \<Rightarrow> real \<Rightarrow> error + real \<times> real \<times> real \<times> real" where
  "loss_calc self graph_batch result loss include_energy include_forces include_stresses
       loss_f loss_s =
     (if model_name self = ''graphormer'' \<or> model_name self = ''geomformer''
      then Inl NotImplementedError
      else
        and_then
          (if include_energy then
             and_then (per_atom (energy graph_batch) (num_atoms (batch_input graph_batch)))
               (\<lambda>e_gt. and_then (lookup result ''total_energy'')
               (\<lambda>total. and_then (per_atom total (num_atoms (batch_input graph_batch)))
               (\<lambda>e_pred. and_then (loss e_pred e_gt)
               (\<lambda>l. and_then (L1Loss e_pred e_gt)
               (\<lambda>e_mae. Inr (0 + l, e_mae))))))
           else Inr (0, 0))
          (\<lambda>(loss1, e_mae).
        and_then
          (if include_forces then
             and_then (lookup result ''forces'')
               (\<lambda>f_pred. and_then (loss f_pred (forces graph_batch))
               (\<lambda>l. and_then (L1Loss f_pred (forces graph_batch))
               (\<lambda>f_mae. Inr (loss1 + l * loss_f, f_mae))))
           else Inr (loss1, 0))
          (\<lambda>(loss2, f_mae).
        and_then
          (if include_stresses then
             and_then (lookup result ''stresses'')
               (\<lambda>s_pred. and_then (loss s_pred (stress graph_batch))
               (\<lambda>l. and_then (L1Loss s_pred (stress graph_batch))
               (\<lambda>s_mae. Inr (loss2 + l * loss_s, s_mae))))
           else Inr (loss2, 0))
          (\<lambda>(loss3, s_mae). Inr (loss3, e_mae, f_mae, s_mae)))))"

subsection \<open>One epoch over a data loader\<close>

text \<open>Lines 599 to 611 of \<open>train_one_epoch\<close>: in training mode \<open>forward\<close> runs on the raw
  weights; in validation mode it runs inside \<open>ema.average_parameters()\<close>, which is left
  whether or not \<open>forward\<close> raises. In any other mode no result is bound.\<close>

definition forward_in_mode ::
  "('w, 'x) torch \<Rightarrow> ('w, 'a, 'sd) potential \<Rightarrow> 'x input \<Rightarrow> bool \<Rightarrow> bool \<Rightarrow> int \<Rightarrow> string
     \<Rightarrow> (error + outputs \<times> 'x input \<times> event list) \<times> ('w, 'a, 'sd) potential" where
  "forward_in_mode env self inp include_forces include_stresses dataset_idx mode =
     (if mode = ''train''
      then (forward env self inp include_forces include_stresses dataset_idx, self)
      else if mode = ''val''
      then (let self1 = average_parameters_enter self
            in (forward env self1 inp include_forces include_stresses dataset_idx,
                average_parameters_exit self1))
      else (Inl UnboundLocalError, self))"

text \<open>The running means of an epoch (one \<open>MeanMetric\<close> each), as the values fed to them.\<close>

record meters =
  loss_avg :: "real list"
  train_e_mae :: "real list"
  train_f_mae :: "real list"
  train_s_mae :: "real list"

definition no_meters :: meters where
  "no_meters = \<lparr>loss_avg = [], train_e_mae = [], train_f_mae = [], train_s_mae = []\<rparr>"

definition compute :: "real list \<Rightarrow> real" where
  "compute xs = sum_list xs / real (length xs)"

definition update_meters ::
  "meters \<Rightarrow> bool \<Rightarrow> bool \<Rightarrow> bool \<Rightarrow> real \<times> real \<times> real \<times> real \<Rightarrow> meters" where
  "update_meters m include_energy include_forces include_stresses r =
     (case r of
        (l, e_mae, f_mae, s_mae) \<Rightarrow>
          \<lparr>loss_avg = loss_avg m @ [l],
           train_e_mae = (if include_energy then train_e_mae m @ [e_mae] else train_e_mae m),
           train_f_mae = (if include_forces then train_f_mae m @ [f_mae] else train_f_mae m),
           train_s_mae = (if include_stresses then train_s_mae m @ [s_mae] else train_s_mae m)\<rparr>)"

text \<open>The arguments of an epoch that stay fixed over its batches. \<open>optimizer_step\<close> stands
  for lines 626 to 635: gradients zeroed, the loss back-propagated, the gradient norm
  clipped, the optimizer stepped and the moving average updated; it yields the new
  weights, optimizer and moving average.\<close>

record ('w, 'a, 'sd, 'x) epoch_args =
  ep_loss :: "tval \<Rightarrow> tval \<Rightarrow> error + real"
  ep_include_energy :: bool
  ep_include_forces :: bool
  ep_include_stresses :: bool
  ep_loss_f :: real
  ep_loss_s :: real
  ep_mode :: string
  optimizer_step ::
    "('w, 'a, 'sd) potential \<Rightarrow> 'x graph_batch \<Rightarrow> real \<Rightarrow> 'w \<times> 'sd optimizer \<times> 'w ema"

text \<open>The body of the loop over the batches, for a given head index.\<close>

definition process_batch ::
  "('w, 'x) torch \<Rightarrow> ('w, 'a, 'sd, 'x) epoch_args \<Rightarrow> int \<Rightarrow> ('w, 'a, 'sd) potential
     \<Rightarrow> 'x graph_batch
     \<Rightarrow> (error + real \<times> real \<times> real \<times> real) \<times> ('w, 'a, 'sd) potential" where
  "process_batch env a dataset_idx self graph_batch =
     (case forward_in_mode env self (batch_to_dict graph_batch) (ep_include_forces a)
             (ep_include_stresses a) dataset_idx (ep_mode a) of
        (Inl e, self1) \<Rightarrow> (Inl e, self1)
      | (Inr (result, inp', tr), self1) \<Rightarrow>
          (case loss_calc self1 graph_batch result (ep_loss a) (ep_include_energy a)
                  (ep_include_forces a) (ep_include_stresses a) (ep_loss_f a) (ep_loss_s a) of
             Inl e \<Rightarrow> (Inl e, self1)
           | Inr (l, maes) \<Rightarrow>
               (Inr (l, maes),
                if ep_mode a = ''train''
                then (case optimizer_step a self1 graph_batch l of
                        (w, opt, avg) \<Rightarrow> self1\<lparr>params := w, optimizer := opt, ema := avg\<rparr>)
                else self1)))"

fun epoch_batches ::
  "('w, 'x) torch \<Rightarrow> ('w, 'a, 'sd, 'x) epoch_args \<Rightarrow> ('w, 'a, 'sd) potential \<Rightarrow> meters
     \<Rightarrow> 'x graph_batch list \<Rightarrow> (error + meters) \<times> ('w, 'a, 'sd) potential" where
  "epoch_batches env a self m [] = (Inr m, self)"
| "epoch_batches env a self m (graph_batch # rest) =
     (if model_name self = ''graphormer'' \<or> model_name self = ''geomformer''
      then (Inl NotImplementedError, self)
      else
        (case process_batch env a (- 1) self graph_batch of
           (Inl e, self1) \<Rightarrow> (Inl e, self1)
         | (Inr r, self1) \<Rightarrow>
             epoch_batches env a self1
               (update_meters m (ep_include_energy a) (ep_include_forces a)
                  (ep_include_stresses a) r)
               rest))"

text \<open>\<open>Potential.train_one_epoch\<close>, without its printing and logging: the metrics it returns
  in validation mode (\<open>None\<close> otherwise), and the object afterwards.\<close>

definition train_one_epoch ::
  "('w, 'x) torch \<Rightarrow> ('w, 'a, 'sd, 'x) epoch_args \<Rightarrow> ('w, 'a, 'sd) potential
     \<Rightarrow> 'x graph_batch list
     \<Rightarrow> (error + (real \<times> real \<times> real \<times> real) option) \<times> ('w, 'a, 'sd) potential" where
  "train_one_epoch env a self dataloader =
     (let self0 = (if ep_mode a = ''train'' then self\<lparr>training := True\<rparr>
                   else if ep_mode a = ''val'' then self\<lparr>training := False\<rparr>
                   else self)
      in case epoch_batches env a self0 no_meters dataloader of
           (Inl e, self1) \<Rightarrow> (Inl e, self1)
         | (Inr m, self1) \<Rightarrow>
             (Inr (if ep_mode a = ''val''
                   then Some (compute (loss_avg m),
                              (if ep_include_energy a then compute (train_e_mae m) else 0),
                              (if ep_include_forces a then compute (train_f_mae m) else 0),
                              (if ep_include_stresses a then compute (train_s_mae m) else 0))
                   else None),
              self1))"

subsection \<open>Validation as the specification words it\<close>

text \<open>
  The specification of the validation mode reads: "evaluate under the EMA shadow weights
  (temporarily swap in the averaged parameters, restore afterward) - validation never
  measures the raw, possibly noisy, training weights." The two definitions below follow
  that wording and not the code; they are what \<open>process_batch\<close> and \<open>train_one_epoch\<close> are
  compared with. A batch is measured by \<open>forward\<close> and \<open>loss_calc\<close> on the model with the
  weights \<open>w\<close> in place of its own, and an epoch feeds the measurements of its batches to
  the running means, one batch after the other, up to the first that raises.
\<close>

definition evaluate_batch ::
  "('w, 'x) torch \<Rightarrow> ('w, 'a, 'sd, 'x) epoch_args \<Rightarrow> ('w, 'a, 'sd) potential \<Rightarrow> 'w \<Rightarrow> int
     \<Rightarrow> 'x graph_batch \<Rightarrow> error + real \<times> real \<times> real \<times> real" where
  "evaluate_batch env a self w dataset_idx graph_batch =
     and_then
       (forward env (self\<lparr>params := w\<rparr>) (batch_to_dict graph_batch) (ep_include_forces a)
          (ep_include_stresses a) dataset_idx)
       (\<lambda>(result, inp', tr).
          loss_calc (self\<lparr>params := w\<rparr>) graph_batch result (ep_loss a) (ep_include_energy a)
            (ep_include_forces a) (ep_include_stresses a) (ep_loss_f a) (ep_loss_s a))"

fun evaluate_epoch ::
  "('w, 'x) torch \<Rightarrow> ('w, 'a, 'sd, 'x) epoch_args \<Rightarrow> ('w, 'a, 'sd) potential \<Rightarrow> 'w \<Rightarrow> meters
     \<Rightarrow> 'x graph_batch list \<Rightarrow> error + meters" where
  "evaluate_epoch env a self w m [] = Inr m"
| "evaluate_epoch env a self w m (graph_batch # rest) =
     and_then (evaluate_batch env a self w (- 1) graph_batch)
       (\<lambda>r. evaluate_epoch env a self w
               (update_meters m (ep_include_energy a) (ep_include_forces a)
                  (ep_include_stresses a) r)
               rest)"

subsection \<open>The multi-head scheduler\<close>

text \<open>Lines 724 to 726 of \<open>train_one_epoch_multi_head\<close>: the lengths of the data loaders,
  summed up in place from left to right.\<close>

definition accumulate_lengths :: "nat list \<Rightarrow> nat list" where
  "accumulate_lengths lens =
     fold (\<lambda>i xs. xs[i := xs ! i + xs ! (i - 1)]) [1..<length lens] lens"

text \<open>Lines 731 to 733: the index of the first bound the flat index is below; when the
  loop runs out without \<open>break\<close> the variable keeps the last index. \<open>k\<close> counts the
  bounds passed.\<close>

fun find_dataset :: "nat \<Rightarrow> nat list \<Rightarrow> nat \<Rightarrow> nat" where
  "find_dataset k [] i = k - 1"
| "find_dataset k (bound # bounds) i =
     (if i < bound then k else find_dataset (Suc k) bounds i)"

text \<open>\<open>dataloader_iter[dataset_idx].__next__()\<close>: an iterator is the list of the batches it
  has yet to yield.\<close>

definition next_batch :: "'b list list \<Rightarrow> nat \<Rightarrow> error + 'b \<times> 'b list list" where
  "next_batch iters d =
     (if d < length iters then
        (case iters ! d of
           [] \<Rightarrow> Inl StopIteration
         | b # rest \<Rightarrow> Inr (b, iters[d := rest]))
      else Inl IndexError)"

text \<open>The loop over the shuffled flat indices. \<open>body\<close> stands for lines 736 to 783, what is
  done with the batch drawn for a data set, on a state \<open>s\<close>.\<close>

fun multi_head_loop ::
  "('s \<Rightarrow> nat \<Rightarrow> 'b \<Rightarrow> error + 's) \<Rightarrow> nat list \<Rightarrow> 'b list list \<Rightarrow> 's \<Rightarrow> nat list
     \<Rightarrow> error + 's" where
  "multi_head_loop body bounds iters s [] = Inr s"
| "multi_head_loop body bounds iters s (i # idx_list) =
     (case next_batch iters (find_dataset 0 bounds i) of
        Inl e \<Rightarrow> Inl e
      | Inr (graph_batch, iters') \<Rightarrow>
          (case body s (find_dataset 0 bounds i) graph_batch of
             Inl e \<Rightarrow> Inl e
           | Inr s' \<Rightarrow> multi_head_loop body bounds iters' s' idx_list))"

text \<open>Lines 716 to 730: the iterators, the accumulated lengths, the flat index list
  \<open>range(dataloader_len[-1])\<close> and its shuffle, then the loop. A data loader is the list of
  batches its iterator yields; \<open>shuffle\<close> stands for \<open>random.shuffle\<close>.\<close>

definition multi_head_epoch ::
  "(nat list \<Rightarrow> nat list) \<Rightarrow> ('s \<Rightarrow> nat \<Rightarrow> 'b \<Rightarrow> error + 's) \<Rightarrow> 'b list list \<Rightarrow> 's
     \<Rightarrow> error + 's" where
  "multi_head_epoch shuffle body dataloader_list s =
     (let dataloader_iter = dataloader_list;
          dataloader_len = accumulate_lengths (map length dataloader_list)
      in if dataloader_len = [] then Inl IndexError
         else multi_head_loop body dataloader_len dataloader_iter s
                (shuffle [0..<last dataloader_len]))"

text \<open>Running a body over a given sequence of (data set, batch) pairs, stopping at the
  first exception: what an epoch amounts to once its visits are known.\<close>

fun run_visits ::
  "('s \<Rightarrow> nat \<Rightarrow> 'b \<Rightarrow> error + 's) \<Rightarrow> 's \<Rightarrow> (nat \<times> 'b) list \<Rightarrow> error + 's" where
  "run_visits body s [] = Inr s"
| "run_visits body s ((d, b) # rest) =
     (case body s d b of Inl e \<Rightarrow> Inl e | Inr s' \<Rightarrow> run_visits body s' rest)"

text \<open>The body that only records its visits.\<close>

definition record_visit :: "(nat \<times> 'b) list \<Rightarrow> nat \<Rightarrow> 'b \<Rightarrow> error + (nat \<times> 'b) list" where
  "record_visit s d b = Inr (s @ [(d, b)])"

text \<open>The running sums of a list of lengths, from an offset: the cumulative boundaries of
  the flattened index space.\<close>

fun running_sums :: "nat \<Rightarrow> nat list \<Rightarrow> nat list" where
  "running_sums a [] = []"
| "running_sums a (x # xs) = (a + x) # running_sums (a + x) xs"

subsection \<open>Loading a checkpoint\<close>

text \<open>
  What \<open>Potential.load\<close> calls and this file does not define: the constructor of the energy
  model for a model name and the stored constructor arguments (fresh weights, or an
  exception), \<open>load_state_dict\<close> of the model (with \<open>strict=False\<close>), of an optimizer, of a
  scheduler and of a moving average (the object after loading, or an exception), and the
  directory of the module.
\<close>

record ('w, 'a, 'sd) loader =
  build_model :: "string \<Rightarrow> 'a \<Rightarrow> error + 'w"
  load_state_dict :: "'w \<Rightarrow> 'w \<Rightarrow> error + 'w"
  optimizer_load_state_dict :: "'sd optimizer \<Rightarrow> 'sd optimizer \<Rightarrow> error + 'sd optimizer"
  scheduler_load_state_dict :: "'sd scheduler \<Rightarrow> 'sd scheduler \<Rightarrow> error + 'sd scheduler"
  ema_load_state_dict :: "'w ema \<Rightarrow> 'w ema \<Rightarrow> error + 'w ema"
  current_dir :: string

text \<open>Python's \<open>os.path.join\<close> of a directory and a relative name.\<close>

definition path_join :: "string \<Rightarrow> string \<Rightarrow> string" where
  "path_join a b = (if a = [] then b else if last a = CHR ''/'' then a @ b else a @ ''/'' @ b)"

text \<open>\<open>obj.load_state_dict(checkpoint[key])\<close>: a missing key, or an entry that is not a state
  dictionary, raises.\<close>

definition load_direct :: "('x \<Rightarrow> 'x \<Rightarrow> error + 'x) \<Rightarrow> 'x \<Rightarrow> 'x entry option \<Rightarrow> error + 'x" where
  "load_direct load_sd obj e =
     (case e of
        None \<Rightarrow> Inl KeyError
      | Some (State_dict sd) \<Rightarrow> load_sd obj sd
      | Some (Object sd) \<Rightarrow> Inl TypeError
      | Some Junk \<Rightarrow> Inl TypeError)"

text \<open>\<open>obj.load_state_dict(checkpoint[key].state_dict())\<close>.\<close>

definition load_via_state_dict ::
  "('x \<Rightarrow> 'x \<Rightarrow> error + 'x) \<Rightarrow> 'x \<Rightarrow> 'x entry option \<Rightarrow> error + 'x" where
  "load_via_state_dict load_sd obj e =
     (case e of
        None \<Rightarrow> Inl KeyError
      | Some (State_dict sd) \<Rightarrow> Inl AttributeError
      | Some (Object None) \<Rightarrow> Inl RuntimeError
      | Some (Object (Some sd)) \<Rightarrow> load_sd obj sd
      | Some Junk \<Rightarrow> Inl AttributeError)"

text \<open>The two nested \<open>try\<close> blocks used for the optimizer and for the scheduler: the object
  restored directly, else through \<open>state_dict()\<close>, else \<open>None\<close> for "both raised".\<close>

definition restore :: "('x \<Rightarrow> 'x \<Rightarrow> error + 'x) \<Rightarrow> 'x \<Rightarrow> 'x entry option \<Rightarrow> 'x option" where
  "restore load_sd obj e =
     (case load_direct load_sd obj e of
        Inr obj' \<Rightarrow> Some obj'
      | Inl err \<Rightarrow>
          (case load_via_state_dict load_sd obj e of
             Inr obj' \<Rightarrow> Some obj'
           | Inl err' \<Rightarrow> None))"

text \<open>The local variables \<open>optimizer\<close>, \<open>scheduler\<close>, \<open>last_epoch\<close>, \<open>validation_metrics\<close>,
  \<open>description\<close> and \<open>ema\<close> of \<open>load\<close> after lines 1076 to 1112, for the restored weights \<open>w\<close>.\<close>

record ('w, 'sd) training_state =
  ts_optimizer :: "'sd optimizer option"
  ts_scheduler :: "'sd scheduler_arg"
  ts_last_epoch :: int
  ts_validation_metrics :: "(string \<times> real) list"
  ts_description :: string
  ts_ema :: "'w ema option"

definition restore_training_state ::
  "('w, 'a, 'sd) loader \<Rightarrow> ('w, 'a, 'sd) checkpoint \<Rightarrow> 'w \<Rightarrow> bool \<Rightarrow> ('w, 'sd) training_state"
  where
  "restore_training_state env checkpoint w load_training_state =
     (if load_training_state then
        \<lparr>ts_optimizer =
           restore (optimizer_load_state_dict env) (Adam (1 / 1000) (1 / 100000000) None)
             (ck_optimizer checkpoint),
         ts_scheduler =
           (case restore (scheduler_load_state_dict env) (StepLR 10 (95 / 100) None)
                   (ck_scheduler checkpoint) of
              Some sch \<Rightarrow> Instance sch
            | None \<Rightarrow> Name ''StepLR''),
         ts_last_epoch =
           (case (ck_last_epoch checkpoint, ck_validation_metrics checkpoint,
                  ck_description checkpoint) of
              (Some e, Some m, Some d) \<Rightarrow> e
            | _ \<Rightarrow> - 1),
         ts_validation_metrics =
           (case (ck_last_epoch checkpoint, ck_validation_metrics checkpoint,
                  ck_description checkpoint) of
              (Some e, Some m, Some d) \<Rightarrow> m
            | _ \<Rightarrow> [(''loss'', 0)]),
         ts_description =
           (case (ck_last_epoch checkpoint, ck_validation_metrics checkpoint,
                  ck_description checkpoint) of
              (Some e, Some m, Some d) \<Rightarrow> d
            | _ \<Rightarrow> []),
         ts_ema =
           (case load_direct (ema_load_state_dict env) (ExponentialMovingAverage w (99 / 100))
                   (ck_ema checkpoint) of
              Inr avg \<Rightarrow> Some avg
            | Inl err \<Rightarrow> None)\<rparr>
      else
        \<lparr>ts_optimizer = None, ts_scheduler = Name ''StepLR'', ts_last_epoch = - 1,
         ts_validation_metrics = [(''loss'', 0)], ts_description = [], ts_ema = None\<rparr>)"

text \<open>\<open>Potential.load\<close>. The keyword arguments passed on to the constructor must not repeat
  the ones \<open>load\<close> passes itself.\<close>

definition load ::
  "('w, 'a, 'sd) loader \<Rightarrow> ('w, 'a, 'sd) fs \<Rightarrow> string \<Rightarrow> path option \<Rightarrow> bool \<Rightarrow> kwargs
     \<Rightarrow> error + ('w, 'a, 'sd) potential" where
  "load env f name load_path load_training_state kw =
     and_then
       (case load_path of
          None \<Rightarrow>
            if name = ''m3gnet''
            then Inr (path_join (current_dir env) ''m3gnet/pretrained/mpf'', Best_model)
            else Inl NotImplementedError
        | Some p \<Rightarrow> Inr p)
       (\<lambda>p. and_then (case files f p of None \<Rightarrow> Inl FileNotFoundError | Some c \<Rightarrow> Inr c)
       (\<lambda>checkpoint.
          and_then (case ck_model_name checkpoint of
                      None \<Rightarrow> Inl KeyError
                    | Some n \<Rightarrow> if n = name then Inr () else Inl AssertionError)
       (\<lambda>u. and_then (if name = ''m3gnet'' \<or> name = ''m3gnet_multi_head''
                      then (case ck_model_args checkpoint of
                              None \<Rightarrow> Inl KeyError
                            | Some margs \<Rightarrow>
                                and_then (build_model env name margs) (\<lambda>w0. Inr (margs, w0)))
                      else Inl NotImplementedError)
       (\<lambda>(margs, w0).
          and_then (case ck_model checkpoint of
                      None \<Rightarrow> Inl KeyError
                    | Some sd \<Rightarrow> load_state_dict env w0 sd)
       (\<lambda>w. (let ts = restore_training_state env checkpoint w load_training_state in
              if kw_model_name kw \<noteq> None \<or> kw_last_epoch kw \<noteq> None
                 \<or> kw_validation_metrics kw \<noteq> None \<or> kw_description kw \<noteq> None
              then Inl TypeError
              else Potential w margs False (ts_optimizer ts) (ts_scheduler ts) (ts_ema ts)
                     (kw\<lparr>kw_model_name := Some name,
                         kw_last_epoch := Some (ts_last_epoch ts),
                         kw_validation_metrics := Some (ts_validation_metrics ts),
                         kw_description := Some (ts_description ts)\<rparr>)))))))"

subsection \<open>A concrete training run\<close>

text \<open>A small instance used to evaluate the definitions: weights are a natural number,
  the model has no constructor arguments and the optimizer no internal state.\<close>

definition demo_self :: "(nat, unit, unit) potential" where
  "demo_self =
     \<lparr>params = 5, model_args = (), training = True, optimizer = Adam (1 / 1000) (1 / 10000000) None,
      scheduler = StepLR 10 (95 / 100) None,
      ema = \<lparr>decay = 99 / 100, shadow_params = 7, collected_params = None\<rparr>,
      model_name = ''m3gnet'', validation_metrics = [(''loss'', 10000)], last_epoch = 0,
      description = [], best_metric = 10, rank = None, idx = None\<rparr>"

definition demo_best :: "(nat, unit, unit) checkpoint" where
  "demo_best = checkpoint_of (demo_self\<lparr>validation_metrics := zip saved_name [1, 1, 1, 1]\<rparr>)"

definition demo_fs :: "(nat, unit, unit) fs" where
  "demo_fs = \<lparr>files = [(''results'', Best_model) \<mapsto> demo_best], writes = []\<rparr>"

text \<open>Every epoch validates to the same metrics and moves the weights by one.\<close>

definition demo_trainer :: "real \<Rightarrow> (nat, unit, unit) trainer" where
  "demo_trainer v =
     \<lparr>run_epoch = (\<lambda>self epoch. Inr ((params self + 1, optimizer self, ema self), (v, v, v, v))),
      step_lr = (\<lambda>step_size gamma sd. ()),
      get_rank = 0\<rparr>"

definition demo_args :: "bool \<Rightarrow> bool \<Rightarrow> train_args" where
  "demo_args persist distributed =
     \<lparr>arg_epochs = 10, arg_early_stop_patience = 2, arg_metric_name = ''val_loss'',
      arg_save_checkpoint = persist, arg_save_path = ''results'', arg_ckpt_interval = 10,
      arg_is_distributed = distributed\<rparr>"



text \<open>The object \<open>Potential(model)\<close> constructs for that model, and an empty directory.\<close>

definition demo_fresh :: "(nat, unit, unit) potential" where
  "demo_fresh = demo_self\<lparr>ema := ExponentialMovingAverage 5 (99 / 100), last_epoch := - 1\<rparr>"

definition empty_fs :: "(nat, unit, unit) fs" where
  "empty_fs = \<lparr>files = Map.empty, writes = []\<rparr>"

subsection \<open>A concrete batch and energy model\<close>

text \<open>Two structures with two atoms and one atom. The energy of a structure is the volume
  of its cell; its gradient by the positions is zero and its gradient by the strain, at
  zero strain, is the volume times the identity.\<close>

definition demo_input :: "unit input" where
  "demo_input =
     \<lparr>atom_pos = \<lparr>data = [(1, 0, 0), (0, 2, 0), (1, 1, 1)], requires_grad = False,
                  node = Leaf ''atom_pos''\<rparr>,
      cell = \<lparr>data = [((2, 0, 0), (0, 2, 0), (0, 0, 2)), ((1, 0, 0), (0, 1, 0), (0, 0, 4))],
              requires_grad = False, node = Leaf ''cell''\<rparr>,
      num_atoms = [2, 1], others = ()\<rparr>"

definition demo_torch :: "(nat, unit) torch" where
  "demo_torch =
     \<lparr>model_forward = (\<lambda>w inp dataset_idx. Inr (map det3 (data (cell inp)))),
      autograd_grad = (\<lambda>w inp dataset_idx out ins create_graph.
         Inr (map (\<lambda>n. if n = Fresh ''strain''
                        then Some (Mats (map (\<lambda>c. mat_map (\<lambda>x. det3 c * x) eye3)
                                           (data (cell inp))))
                        else Some (Vecs (map (\<lambda>p. (0, 0, 0)) (data (atom_pos inp))))) ins))\<rparr>"

text \<open>The batch after the strain rewrite at zero strain: the same values, as nodes that
  depend on the strain.\<close>

definition demo_strained :: "unit input" where
  "demo_strained =
     \<lparr>atom_pos =
        \<lparr>data = [(1, 0, 0), (0, 2, 0), (1, 1, 1)], requires_grad = True,
         node = Op ''einsum bi, bij -> bj''
                  [Leaf ''atom_pos'',
                   Op ''add'' [Fresh ''eye'',
                               Op ''repeat_interleave'' [Fresh ''strain'', Leaf ''num_atoms'']]]\<rparr>,
      cell =
        \<lparr>data = [((2, 0, 0), (0, 2, 0), (0, 0, 2)), ((1, 0, 0), (0, 1, 0), (0, 0, 4))],
         requires_grad = True,
         node = Op ''matmul'' [Leaf ''cell'', Op ''add'' [Fresh ''eye'', Fresh ''strain'']]\<rparr>,
      num_atoms = [2, 1], others = ()\<rparr>"

subsection \<open>A concrete batch with ground truth, and a prediction\<close>

definition demo_batch :: "unit graph_batch" where
  "demo_batch =
     \<lparr>batch_input = demo_input,
      energy = Scalars [10, 5],
      forces = Vecs [(1, 0, 0), (0, 0, 0), (0, 0, 0)],
      stress = Mats [zero3, zero3]\<rparr>"

definition demo_result :: outputs where
  "demo_result =
     [''total_energy'' \<mapsto> Scalars [8, 4],
      ''forces'' \<mapsto> Vecs [(0, 0, 0), (0, 0, 0), (0, 0, 0)],
      ''stresses'' \<mapsto> Mats [((3, 0, 0), (0, 0, 0), (0, 0, 0)), zero3]]"

text \<open>Epoch arguments whose optimisation step moves the weights by one.\<close>

definition demo_epoch :: "(nat, unit, unit, unit) epoch_args" where
  "demo_epoch =
     \<lparr>ep_loss = MSELoss, ep_include_energy = True, ep_include_forces = True,
      ep_include_stresses = True, ep_loss_f = 1, ep_loss_s = 1 / 10, ep_mode = ''train'',
      optimizer_step = (\<lambda>self graph_batch l. (params self + 1, optimizer self, ema self))\<rparr>"

text \<open>An energy model that depends on its weights (the weight times the volume of the
  cell), and epoch arguments that measure energies only.\<close>

definition demo_weighted :: "(nat, unit) torch" where
  "demo_weighted =
     \<lparr>model_forward = (\<lambda>w inp dataset_idx. Inr (map (\<lambda>c. real w * det3 c) (data (cell inp)))),
      autograd_grad = (\<lambda>w inp dataset_idx out ins create_graph. Inr (map (\<lambda>n. None) ins))\<rparr>"

definition demo_energy_only :: "(nat, unit, unit, unit) epoch_args" where
  "demo_energy_only = demo_epoch\<lparr>ep_include_forces := False, ep_include_stresses := False\<rparr>"

subsection \<open>A concrete checkpoint with damaged training state\<close>

text \<open>Loading copies a state dictionary as it is. The record below has weights and
  constructor arguments, but its optimizer and moving-average entries are not state
  dictionaries, and its scheduler entry and its epoch are missing.\<close>

definition demo_loader :: "(nat, unit, unit) loader" where
  "demo_loader =
     \<lparr>build_model = (\<lambda>name margs. Inr 0),
      load_state_dict = (\<lambda>w sd. Inr sd),
      optimizer_load_state_dict = (\<lambda>opt sd. Inr sd),
      scheduler_load_state_dict = (\<lambda>sch sd. Inr sd),
      ema_load_state_dict = (\<lambda>avg sd. Inr sd),
      current_dir = ''mattersim/forcefield''\<rparr>"

definition demo_damaged :: "(nat, unit, unit) checkpoint" where
  "demo_damaged =
     \<lparr>ck_model_name = Some ''m3gnet'', ck_model = Some 5, ck_model_args = Some (),
      ck_optimizer = Some Junk, ck_ema = Some Junk, ck_scheduler = None,
      ck_last_epoch = None, ck_validation_metrics = Some [(''loss'', 1)],
      ck_description = Some ''run''\<rparr>"

definition demo_damaged_fs :: "(nat, unit, unit) fs" where
  "demo_damaged_fs = \<lparr>files = [(''results'', Last_model) \<mapsto> demo_damaged], writes = []\<rparr>"

section \<open>Properties of the checkpoint steps\<close>

subsection \<open>Auxiliary facts\<close>

lemma save_Inr:
  "fst p \<noteq> [] \<Longrightarrow>
     save self p f = Inr (f\<lparr>files := (files f)(p \<mapsto> checkpoint_of self),
                            writes := writes f @ [(p, checkpoint_of self)]\<rparr>)"
  by (simp add: save_def)

lemma save_writes:
  "save self p f = Inr f1 \<Longrightarrow> writes f1 = writes f @ [(p, checkpoint_of self)]"
  by (auto simp: save_def split: if_splits)

lemma average_parameters_round_trip:
  "average_parameters_exit (average_parameters_enter self) =
     self\<lparr>ema := (ema self)\<lparr>collected_params := Some (params self)\<rparr>\<rparr>"
  by (simp add: average_parameters_exit_def average_parameters_enter_def)

lemma idx_average_parameters_enter [simp]:
  "idx (average_parameters_enter self) = idx self"
  by (simp add: average_parameters_enter_def)


lemma index_of_Some: "index_of xs x = Some k \<Longrightarrow> k < length xs \<and> xs ! k = x"
proof (induction xs arbitrary: k)
  case Nil
  then show ?case by simp
next
  case (Cons y ys)
  then show ?case by (cases "y = x") auto
qed


lemma train_loop_unfold:
  "train_loop env args self f epoch =
     (if epoch < arg_epochs args then
        (let r = train_epoch env args self f epoch
         in if fst r = Inr False then train_loop env args (fst (snd r)) (snd (snd r)) (epoch + 1)
            else r)
      else (Inr False, self, f))"
  by (subst train_loop.simps) (auto simp: Let_def split: prod.splits sum.splits bool.splits)

text \<open>The two ways a run is ended by an exception of the loop body itself: a save into an
  empty path, and the step of a \<open>ReduceLROnPlateau\<close> scheduler.\<close>

lemma save_empty_path: "save self ([], name) f = Inl FileNotFoundError"
  by (simp add: save_def)

lemma train_epoch_plateau:
  assumes "run_epoch env self epoch = Inr ((w, opt, avg), metric)"
    and "scheduler self = ReduceLROnPlateau factor patience"
  shows "fst (train_epoch env args self f epoch) = Inl TypeError
     \<and> snd (snd (train_epoch env args self f epoch)) = f"
  using assms by (simp add: train_epoch_def scheduler_step_def Let_def)

subsection \<open>Early stopping in single-process training\<close>



lemma record_at_first [simp]: "record_at save_checkpoint v r first first = r"
  by (simp add: record_at_def)








subsection \<open>The checkpoint step with persistence switched off\<close>

text \<open>
  Claim C3. With \<open>save_checkpoint\<close> false the single-process checkpoint step leaves the
  file system as it was (no file is written, the write log does not grow), and it still
  evaluates the early-stop condition: it returns \<open>True\<close> exactly when a best checkpoint
  can be read, the metric name is supported, the record carries its epoch and the current
  epoch exceeds that epoch plus the patience; otherwise it returns \<open>False\<close>. The weights
  swapped in for the step are swapped back.
\<close>

theorem save_model_without_persistence:
  "save_model self f epoch patience save_path metric_name False metric ckpt_interval =
     (Inr (case files f (save_path, Best_model) of
             None \<Rightarrow> False
           | Some best_model \<Rightarrow>
               metric_name \<in> set metric_names \<and>
               (case ck_last_epoch best_model of
                  None \<Rightarrow> False
                | Some e_best \<Rightarrow> epoch > e_best + patience)),
      self\<lparr>ema := (ema self)\<lparr>collected_params := Some (params self)\<rparr>\<rparr>,
      f)"
  by (simp add: save_model_def save_model_try_def save_periodic_def Let_def
      average_parameters_round_trip
      split: option.splits)

text \<open>The step at epoch 3 against a best checkpoint of epoch 0 with patience 2: early stop,
  and nothing written.\<close>

theorem save_model_without_persistence_witness:
  "fst (save_model demo_self demo_fs 3 2 ''results'' ''val_loss'' False [2, 2, 2, 2] 10)
     = Inr True
   \<and> snd (snd (save_model demo_self demo_fs 3 2 ''results'' ''val_loss'' False [2, 2, 2, 2] 10))
     = demo_fs
   \<and> fst (save_model demo_self demo_fs 2 2 ''results'' ''val_loss'' False [2, 2, 2, 2] 10)
     = Inr False"
  unfolding save_model_without_persistence
  by (simp add: demo_fs_def demo_best_def checkpoint_of_def demo_self_def metric_names_def)

subsection \<open>The best metric of the distributed checkpoint step\<close>

lemma Potential_best_metric:
  "Potential w margs mode optimizer_arg scheduler_arg ema_arg kw = Inr self \<Longrightarrow>
     best_metric self = 10"
  by (auto simp: Potential_def Let_def split: sum.splits)

text \<open>One distributed step: the in-memory best becomes the smaller of itself and the
  selected metric, the step never asks for a stop, and a best checkpoint is written only
  on a strict improvement, holding the epoch of the object.\<close>

lemma save_periodic_writes:
  "\<exists>new. writes (snd (save_periodic self f epoch save_path write ckpt_interval)) = writes f @ new
     \<and> (\<forall>(p, ck) \<in> set new. snd p \<noteq> Best_model)"
  by (auto simp: save_periodic_def save_def split: sum.splits)

lemma save_model_ddp_step:
  assumes "metric_name \<in> set metric_names" and "idx self = Some k"
    and "py_nth metric k = Some m"
  shows "fst (save_model_ddp self f epoch patience save_path metric_name save_checkpoint metric
            ckpt_interval) \<noteq> Inr True
    \<and> best_metric (fst (snd (save_model_ddp self f epoch patience save_path metric_name
            save_checkpoint metric ckpt_interval))) = min m (best_metric self)
    \<and> idx (fst (snd (save_model_ddp self f epoch patience save_path metric_name
            save_checkpoint metric ckpt_interval))) = idx self
    \<and> rank (fst (snd (save_model_ddp self f epoch patience save_path metric_name
            save_checkpoint metric ckpt_interval))) = rank self
    \<and> (\<exists>new. writes (snd (snd (save_model_ddp self f epoch patience save_path metric_name
            save_checkpoint metric ckpt_interval))) = writes f @ new
          \<and> (\<forall>(p, ck) \<in> set new. snd p = Best_model \<longrightarrow>
                m < best_metric self \<and> ck_last_epoch ck = Some (last_epoch self)))"
proof -
  define self1 where "self1 = average_parameters_enter self"
  define self2 where "self2 = (if m < best_metric self1 then self1\<lparr>best_metric := m\<rparr> else self1)"
  define wr where "wr = (m < best_metric self1 \<and> save_checkpoint \<and> rank self2 = Some 0)"
  define best where "best = (if wr then save self2 (save_path, Best_model) f else Inr f)"
  have fields: "best_metric self1 = best_metric self" "idx self1 = Some k"
    "last_epoch self2 = last_epoch self" "rank self2 = rank self" "idx self2 = idx self"
    "best_metric self2 = min m (best_metric self)"
    using assms(2) by (simp_all add: self1_def self2_def average_parameters_enter_def min_def)
  have after: "best_metric (average_parameters_exit self2) = best_metric self2"
    "idx (average_parameters_exit self2) = idx self2"
    "rank (average_parameters_exit self2) = rank self2"
    by (simp_all add: average_parameters_exit_def split: option.splits)
  have unfold: "save_model_ddp self f epoch patience save_path metric_name save_checkpoint
      metric ckpt_interval =
      (case best of
         Inl e \<Rightarrow> (Inl e, average_parameters_exit self2, f)
       | Inr f1 \<Rightarrow>
           (case save_periodic self2 f1 epoch save_path (rank self2 = Some 0 \<and> save_checkpoint)
                   ckpt_interval of
              (r, f2) \<Rightarrow> (r, average_parameters_exit self2, f2)))"
    unfolding save_model_ddp_def Let_def self1_def self2_def wr_def best_def
    using assms by (simp add: average_parameters_enter_def)
  show ?thesis
  proof (cases best)
    case (Inl e)
    then show ?thesis by (simp add: unfold after fields)
  next
    case (Inr f1)
    have f1: "\<exists>new. writes f1 = writes f @ new
        \<and> (\<forall>(p, ck) \<in> set new. snd p = Best_model \<longrightarrow>
              m < best_metric self \<and> ck_last_epoch ck = Some (last_epoch self))"
    proof (cases wr)
      case True
      with Inr have "writes f1 = writes f @ [((save_path, Best_model), checkpoint_of self2)]"
        by (simp add: best_def save_writes)
      moreover from True have "m < best_metric self" by (simp add: wr_def fields)
      ultimately show ?thesis by (simp add: checkpoint_of_def fields)
    next
      case False
      with Inr show ?thesis by (simp add: best_def)
    qed
    obtain r f2 where per: "save_periodic self2 f1 epoch save_path
        (rank self2 = Some 0 \<and> save_checkpoint) ckpt_interval = (r, f2)"
      by (cases "save_periodic self2 f1 epoch save_path
        (rank self2 = Some 0 \<and> save_checkpoint) ckpt_interval")
    have r: "r \<noteq> Inr True"
      using per by (auto simp: save_periodic_def split: if_splits sum.splits)
    from save_periodic_writes [of self2 f1 epoch save_path
        "rank self2 = Some 0 \<and> save_checkpoint" ckpt_interval] per
    obtain new2 where new2: "writes f2 = writes f1 @ new2"
      "\<forall>(p, ck) \<in> set new2. snd p \<noteq> Best_model" by auto
    from f1 obtain new1 where new1: "writes f1 = writes f @ new1"
      "\<forall>(p, ck) \<in> set new1. snd p = Best_model \<longrightarrow>
              m < best_metric self \<and> ck_last_epoch ck = Some (last_epoch self)" by blast
    have "writes f2 = writes f @ (new1 @ new2)" using new1(1) new2(1) by simp
    moreover have "\<forall>(p, ck) \<in> set (new1 @ new2). snd p = Best_model \<longrightarrow>
              m < best_metric self \<and> ck_last_epoch ck = Some (last_epoch self)"
      using new1(2) new2(2) by auto
    ultimately have "\<exists>new. writes f2 = writes f @ new
        \<and> (\<forall>(p, ck) \<in> set new. snd p = Best_model \<longrightarrow>
              m < best_metric self \<and> ck_last_epoch ck = Some (last_epoch self))" by blast
    then show ?thesis using r by (simp add: unfold Inr per per [unfolded fields(4)] after fields)
  qed
qed

lemma train_loop_ddp_best_writes:
  assumes dist: "arg_is_distributed args"
    and name: "index_of metric_names (arg_metric_name args) = Some k"
    and runs: "\<forall>s e. \<exists>l. run_epoch env s e = Inr (l, ms e)"
    and idx: "idx self = Some k"
  shows "\<exists>new. writes (snd (snd (train_loop env args self f e0))) = writes f @ new
     \<and> (\<forall>(p, ck) \<in> set new. snd p = Best_model \<longrightarrow>
          (\<exists>e. ck_last_epoch ck = Some e \<and> e0 \<le> e
             \<and> metric_list (ms e) ! k < best_metric self
             \<and> (\<forall>e'. e0 \<le> e' \<and> e' < e \<longrightarrow>
                   metric_list (ms e) ! k < metric_list (ms e') ! k)))"
  using idx
proof (induction "nat (arg_epochs args - e0)" arbitrary: self f e0)
  case 0
  then have "\<not> e0 < arg_epochs args" by simp
  then show ?case by (simp add: train_loop_unfold [of env args self f e0])
next
  case (Suc n)
  then have running: "e0 < arg_epochs args" by linarith
  have k4: "k < 4"
    using index_of_Some [OF name] by (simp add: metric_names_def)
  have valid: "arg_metric_name args \<in> set metric_names"
    using index_of_Some [OF name] nth_mem [of k metric_names] by auto
  obtain l where run: "run_epoch env self e0 = Inr (l, ms e0)"
    using runs by blast
  obtain w opt avg where l: "l = (w, opt, avg)" by (cases l)
  define m where "m = metric_list (ms e0) ! k"
  define self0 where "self0 = self\<lparr>params := w, optimizer := opt, ema := avg,
      training := False\<rparr>"
  show ?case
  proof (cases "scheduler_step env (scheduler self0) (ms e0)")
    case (Inl err)
    then have "train_loop env args self f e0 = (Inl err, self0, f)"
      using running
      by (simp add: train_loop_unfold [of env args self f e0] train_epoch_def run l
          self0_def Let_def)
    then show ?thesis by simp
  next
    case (Inr sch)
  define self1 where "self1 = self0\<lparr>scheduler := sch, last_epoch := e0,
      validation_metrics := zip saved_name (metric_list (ms e0))\<rparr>"
  have self1: "idx self1 = Some k" "last_epoch self1 = e0" "best_metric self1 = best_metric self"
    using Suc.prems by (simp_all add: self1_def self0_def)
  have nth: "py_nth (metric_list (ms e0)) k = Some m"
    using k4 by (cases "ms e0") (simp add: py_nth_def metric_list_def m_def)
  define step where "step = save_model_ddp self1 f e0 (arg_early_stop_patience args)
      (arg_save_path args) (arg_metric_name args) (arg_save_checkpoint args)
      (metric_list (ms e0)) (arg_ckpt_interval args)"
  have epoch_eq: "train_epoch env args self f e0 = step"
    using dist Inr by (simp add: train_epoch_def run l self1_def self0_def step_def Let_def)
  from save_model_ddp_step [OF valid self1(1) nth, of f e0 "arg_early_stop_patience args"
      "arg_save_path args" "arg_save_checkpoint args" "arg_ckpt_interval args"]
  obtain new1 where step_best: "best_metric (fst (snd step)) = min m (best_metric self)"
    and step_idx: "idx (fst (snd step)) = Some k"
    and new1: "writes (snd (snd step)) = writes f @ new1"
    and new1_best: "\<forall>(p, ck) \<in> set new1. snd p = Best_model \<longrightarrow>
        m < best_metric self \<and> ck_last_epoch ck = Some e0"
    unfolding step_def [symmetric] self1 by blast
  have first: "\<exists>e. ck_last_epoch ck = Some e \<and> e0 \<le> e
             \<and> metric_list (ms e) ! k < best_metric self
             \<and> (\<forall>e'. e0 \<le> e' \<and> e' < e \<longrightarrow>
                   metric_list (ms e) ! k < metric_list (ms e') ! k)"
    if "(p, ck) \<in> set new1" "snd p = Best_model" for p ck
  proof -
    from new1_best that have "m < best_metric self" "ck_last_epoch ck = Some e0" by auto
    then show ?thesis unfolding m_def by (intro exI [of _ e0]) simp
  qed
  show ?thesis
  proof (cases "fst step = Inr False")
    case False
    then have "train_loop env args self f e0 = step"
      using running by (simp add: train_loop_unfold [of env args self f e0] epoch_eq)
    with new1 first show ?thesis by auto
  next
    case True
    then have loop: "train_loop env args self f e0 =
        train_loop env args (fst (snd step)) (snd (snd step)) (e0 + 1)"
      using running by (simp add: train_loop_unfold [of env args self f e0] epoch_eq)
    have n: "n = nat (arg_epochs args - (e0 + 1))" using Suc.hyps(2) by linarith
    from Suc.hyps(1) [OF n step_idx, of "snd (snd step)"]
    obtain new2 where new2: "writes (snd (snd (train_loop env args self f e0))) =
          writes (snd (snd step)) @ new2"
      and new2_best: "\<forall>(p, ck) \<in> set new2. snd p = Best_model \<longrightarrow>
          (\<exists>e. ck_last_epoch ck = Some e \<and> e0 + 1 \<le> e
             \<and> metric_list (ms e) ! k < best_metric (fst (snd step))
             \<and> (\<forall>e'. e0 + 1 \<le> e' \<and> e' < e \<longrightarrow>
                   metric_list (ms e) ! k < metric_list (ms e') ! k))"
      unfolding loop by blast
    have later: "\<exists>e. ck_last_epoch ck = Some e \<and> e0 \<le> e
             \<and> metric_list (ms e) ! k < best_metric self
             \<and> (\<forall>e'. e0 \<le> e' \<and> e' < e \<longrightarrow>
                   metric_list (ms e) ! k < metric_list (ms e') ! k)"
      if "(p, ck) \<in> set new2" "snd p = Best_model" for p ck
    proof -
      from new2_best that obtain e where e: "ck_last_epoch ck = Some e" "e0 + 1 \<le> e"
        "metric_list (ms e) ! k < min m (best_metric self)"
        "\<forall>e'. e0 + 1 \<le> e' \<and> e' < e \<longrightarrow> metric_list (ms e) ! k < metric_list (ms e') ! k"
        unfolding step_best by blast
      have "metric_list (ms e) ! k < metric_list (ms e') ! k" if "e0 \<le> e'" "e' < e" for e'
      proof (cases "e' = e0")
        case True
        with e(3) show ?thesis by (simp add: m_def)
      next
        case False
        with that e(4) show ?thesis by simp
      qed
      with e show ?thesis by (intro exI [of _ e]) simp
    qed
    have "writes (snd (snd (train_loop env args self f e0))) = writes f @ (new1 @ new2)"
      using new1 new2 by simp
    moreover have "\<forall>(p, ck) \<in> set (new1 @ new2). snd p = Best_model \<longrightarrow>
          (\<exists>e. ck_last_epoch ck = Some e \<and> e0 \<le> e
             \<and> metric_list (ms e) ! k < best_metric self
             \<and> (\<forall>e'. e0 \<le> e' \<and> e' < e \<longrightarrow>
                   metric_list (ms e) ! k < metric_list (ms e') ! k))"
      using first later by auto
    ultimately show ?thesis by blast
  qed
  qed
qed

text \<open>
  Claim C10. A freshly constructed \<open>Potential\<close> has the in-memory best metric 10. In a
  distributed run of \<open>train_model\<close> on it whose validation metrics at epoch \<open>e\<close> are \<open>ms e\<close>,
  every best checkpoint written during the run was written at an epoch \<open>e\<close> of the run
  whose selected metric is strictly below 10 and strictly below the selected metric of
  every earlier epoch of the run; so a run whose selected metric is never below 10
  writes no best checkpoint.
\<close>

theorem save_model_ddp_best_below_initial:
  assumes "Potential w margs mode optimizer_arg scheduler_arg ema_arg kw = Inr self"
    and "arg_is_distributed args"
    and "index_of metric_names (arg_metric_name args) = Some k"
    and "\<forall>s e. \<exists>l. run_epoch env s e = Inr (l, ms e)"
  shows "best_metric self = 10
     \<and> (\<exists>new. writes (snd (snd (train_model env args self f))) = writes f @ new
          \<and> (\<forall>(p, ck) \<in> set new. snd p = Best_model \<longrightarrow>
               (\<exists>e. ck_last_epoch ck = Some e \<and> last_epoch self < e
                  \<and> metric_list (ms e) ! k < 10
                  \<and> (\<forall>e'. last_epoch self < e' \<and> e' < e \<longrightarrow>
                        metric_list (ms e) ! k < metric_list (ms e') ! k)))
          \<and> ((\<forall>e. \<not> metric_list (ms e) ! k < 10) \<longrightarrow>
               (\<forall>(p, ck) \<in> set new. snd p \<noteq> Best_model)))"
proof -
  have ten: "best_metric self = 10" by (rule Potential_best_metric [OF assms(1)])
  define self2 where "self2 = self\<lparr>idx := Some k, rank := Some (get_rank env)\<rparr>"
  have start: "train_model env args self f = train_loop env args self2 f (last_epoch self + 1)"
    using assms(2,3) by (simp add: train_model_def self2_def)
  have "idx self2 = Some k" "best_metric self2 = 10"
    by (simp_all add: self2_def ten)
  from train_loop_ddp_best_writes [OF assms(2,3,4) this(1), of f "last_epoch self + 1"]
  obtain new where new: "writes (snd (snd (train_model env args self f))) = writes f @ new"
    and only: "\<forall>(p, ck) \<in> set new. snd p = Best_model \<longrightarrow>
          (\<exists>e. ck_last_epoch ck = Some e \<and> last_epoch self + 1 \<le> e
             \<and> metric_list (ms e) ! k < 10
             \<and> (\<forall>e'. last_epoch self + 1 \<le> e' \<and> e' < e \<longrightarrow>
                   metric_list (ms e) ! k < metric_list (ms e') ! k))"
    unfolding start \<open>best_metric self2 = 10\<close> by blast
  have "\<forall>(p, ck) \<in> set new. snd p = Best_model \<longrightarrow>
               (\<exists>e. ck_last_epoch ck = Some e \<and> last_epoch self < e
                  \<and> metric_list (ms e) ! k < 10
                  \<and> (\<forall>e'. last_epoch self < e' \<and> e' < e \<longrightarrow>
                        metric_list (ms e) ! k < metric_list (ms e') ! k))"
    using only by (fastforce simp: zless_iff_Suc_zadd)
  moreover from only have "(\<forall>e. \<not> metric_list (ms e) ! k < 10) \<longrightarrow>
               (\<forall>(p, ck) \<in> set new. snd p \<noteq> Best_model)"
    by fastforce
  ultimately show ?thesis using ten new by blast
qed

theorem save_model_ddp_best_below_initial_witness:
  "Potential 5 () True None (Name ''StepLR'') None no_kwargs = Inr demo_fresh
   \<and> best_metric demo_fresh = 10
   \<and> Best_model \<notin> (snd \<circ> fst) `
       set (writes (snd (snd (train_model (demo_trainer 20) (demo_args True True) demo_fresh
                                 empty_fs))))"
proof -
  have fresh: "Potential 5 () True None (Name ''StepLR'') None no_kwargs = Inr demo_fresh"
    by (simp add: Potential_def no_kwargs_def get_or_def demo_fresh_def demo_self_def
        ExponentialMovingAverage_def)
  have name: "index_of metric_names (arg_metric_name (demo_args True True)) = Some 0"
    by (simp add: demo_args_def metric_names_def)
  have runs: "\<forall>s e. \<exists>l. run_epoch (demo_trainer 20) s e = Inr (l, (20, 20, 20, 20))"
    by (simp add: demo_trainer_def)
  from save_model_ddp_best_below_initial [OF fresh _ name runs, of empty_fs]
  show ?thesis
    by (auto simp: fresh demo_args_def empty_fs_def metric_list_def)
qed

section \<open>Properties of \<open>forward\<close>\<close>

subsection \<open>The strain rewrite\<close>

lemma apply_strain_Inr:
  assumes "apply_strain s inp = Inr (strain, inp', vol)"
  shows "strain = set_requires_grad s"
    and "vol = map det3 (data (cell inp'))"
    and "node (cell inp') = Op ''matmul'' [node (cell inp), Op ''add'' [Fresh ''eye'', node s]]"
    and "node (atom_pos inp') =
           Op ''einsum bi, bij -> bj''
             [node (atom_pos inp),
              Op ''add'' [Fresh ''eye'', Op ''repeat_interleave'' [node s, Leaf ''num_atoms'']]]"
    and "broadcast2 mat_mul (data (cell inp)) (map (mat_add eye3) (data s))
           = Inr (data (cell inp'))"
    and "\<exists>aug. repeat_interleave (data s) (num_atoms inp) = Inr aug
           \<and> broadcast2 vec_mat (data (atom_pos inp)) (map (mat_add eye3) aug)
               = Inr (data (atom_pos inp'))"
    and "num_atoms inp' = num_atoms inp" and "others inp' = others inp"
  using assms
  by (auto simp: apply_strain_def Let_def matmul_def einsum_bi_bij_bj_def eye_plus_def
      set_requires_grad_def det_def split: sum.splits)

text \<open>
  Claim C9. When \<open>forward\<close> is called with \<open>include_forces\<close> false and \<open>include_stresses\<close>
  true and returns, the strain tensor has been marked differentiable and the cell and
  the positions rewritten, the energy model has been called once on the rewritten input,
  \<open>torch.autograd.grad\<close> has not been called, and the output holds the key
  \<open>total_energy\<close> and no other: neither \<open>stresses\<close> nor \<open>forces\<close>.
\<close>

theorem forward_stresses_need_forces:
  assumes "forward env self inp False True dataset_idx = Inr (out, inp', tr)"
  shows "dom out = {''total_energy''}
     \<and> out ''stresses'' = None \<and> out ''forces'' = None
     \<and> (\<exists>energies. model_forward env (params self) inp' dataset_idx = Inr energies
           \<and> out ''total_energy'' = Some (Scalars energies))
     \<and> tr = [Requires_grad (Fresh ''strain''), Assign ''cell'' (node (cell inp')),
             Assign ''atom_pos'' (node (atom_pos inp')),
             Model_forward (node (atom_pos inp')) (node (cell inp')) dataset_idx]
     \<and> filter is_autograd tr = []
     \<and> node (cell inp') =
         Op ''matmul'' [node (cell inp), Op ''add'' [Fresh ''eye'', Fresh ''strain'']]
     \<and> node (atom_pos inp') =
         Op ''einsum bi, bij -> bj''
           [node (atom_pos inp),
            Op ''add'' [Fresh ''eye'',
                        Op ''repeat_interleave'' [Fresh ''strain'', Leaf ''num_atoms'']]]"
proof -
  from assms obtain strain vol energies
    where rewrite: "apply_strain (zeros_like (cell inp) ''strain'') inp = Inr (strain, inp', vol)"
      and model: "model_forward env (params self) inp' dataset_idx = Inr energies"
      and out: "out = [''total_energy'' \<mapsto> Scalars energies]"
      and tr: "tr = [Requires_grad (node strain), Assign ''cell'' (node (cell inp')),
             Assign ''atom_pos'' (node (atom_pos inp')),
             Model_forward (node (atom_pos inp')) (node (cell inp')) dataset_idx]"
    by (auto simp: forward_def Let_def split: if_splits sum.splits)
  have strain: "node strain = Fresh ''strain''"
    using apply_strain_Inr(1) [OF rewrite] by (simp add: set_requires_grad_def zeros_like_def)
  have nodes: "node (zeros_like (cell inp) ''strain'') = Fresh ''strain''"
    by (simp add: zeros_like_def)
  show ?thesis
    using apply_strain_Inr(3,4) [OF rewrite]
    by (simp add: out tr strain model nodes)
qed

lemma demo_apply_strain:
  "apply_strain (zeros_like (cell demo_input) ''strain'')
       (demo_input\<lparr>atom_pos := (atom_pos demo_input)\<lparr>requires_grad := marked\<rparr>\<rparr>) =
     Inr (\<lparr>data = [zero3, zero3], requires_grad = True, node = Fresh ''strain''\<rparr>,
          demo_strained, [8, 4])"
  by (simp add: demo_input_def demo_strained_def apply_strain_def matmul_def
      einsum_bi_bij_bj_def broadcast2_def repeat_interleave_def eye_plus_def zeros_like_def
      set_requires_grad_def det_def det3_def mat_mul_def vec_mat_def mat_add_def vec_add_def
      eye3_def zero3_def Let_def eval_nat_numeral)

lemma demo_input_unmarked:
  "demo_input = demo_input\<lparr>atom_pos := (atom_pos demo_input)\<lparr>requires_grad := False\<rparr>\<rparr>"
  by (simp add: demo_input_def)

lemma demo_forward_stress_only:
  "forward demo_torch demo_self demo_input False True (- 1) =
     Inr ([''total_energy'' \<mapsto> Scalars [8, 4]], demo_strained,
          [Requires_grad (Fresh ''strain''), Assign ''cell'' (node (cell demo_strained)),
           Assign ''atom_pos'' (node (atom_pos demo_strained)),
           Model_forward (node (atom_pos demo_strained)) (node (cell demo_strained)) (- 1)])"
proof -
  have rewrite: "apply_strain (zeros_like (cell demo_input) ''strain'') demo_input =
      Inr (\<lparr>data = [zero3, zero3], requires_grad = True, node = Fresh ''strain''\<rparr>,
           demo_strained, [8, 4])"
    using demo_apply_strain [of False] demo_input_unmarked by simp
  have energies: "model_forward demo_torch w demo_strained d = Inr [8, 4]" for w d
    by (simp add: demo_torch_def demo_strained_def det3_def)
  have name: "model_name demo_self = ''m3gnet''" by (simp add: demo_self_def)
  show ?thesis
    by (simp add: forward_def Let_def rewrite energies name)
qed

theorem forward_stresses_need_forces_witness:
  "\<exists>out inp' tr. forward demo_torch demo_self demo_input False True (- 1) = Inr (out, inp', tr)
     \<and> dom out = {''total_energy''} \<and> out ''stresses'' = None \<and> out ''forces'' = None
     \<and> out ''total_energy'' = Some (Scalars [8, 4])
     \<and> filter is_autograd tr = []"
  using forward_stresses_need_forces [OF demo_forward_stress_only] demo_forward_stress_only
  by simp

subsection \<open>Forces and stresses from one differentiation\<close>

lemma stress_of_Inr:
  assumes "stress_of volume g = Inr s"
  shows "\<exists>gs. g = Mats gs \<and> length gs = length volume
     \<and> s = Mats (map2 (\<lambda>v m. mat_map (\<lambda>x. 1 / v * x * (16021766208 / 100000000)) m) volume gs)"
  using assms by (auto simp: stress_of_def split: tval.splits if_splits)

text \<open>A returning call with both flags, taken apart: the rewrite, the model call, the one
  differentiation, the events and the output.\<close>

lemma forward_both_Inr:
  assumes "forward env self inp True True dataset_idx = Inr (out, inp', tr)"
  shows "\<exists>strain vol energies force_grad stress_grad rest.
       apply_strain (zeros_like (cell inp) ''strain'')
           (inp\<lparr>atom_pos := set_requires_grad (atom_pos inp)\<rparr>) = Inr (strain, inp', vol)
     \<and> model_forward env (params self) inp' dataset_idx = Inr energies
     \<and> autograd_grad env (params self) inp' dataset_idx
           (Op ''model'' [node (atom_pos inp'), node (cell inp')])
           [node (atom_pos inp'), node strain] (training self)
         = Inr (force_grad # stress_grad # rest)
     \<and> tr = [Requires_grad (node (atom_pos inp)), Requires_grad (node strain),
             Assign ''cell'' (node (cell inp')), Assign ''atom_pos'' (node (atom_pos inp')),
             Model_forward (node (atom_pos inp')) (node (cell inp')) dataset_idx,
             Autograd_grad (Op ''model'' [node (atom_pos inp'), node (cell inp')])
               [node (atom_pos inp'), node strain] (training self)]
     \<and> out ''total_energy'' = Some (Scalars energies)
     \<and> out ''forces'' = map_option tneg force_grad
     \<and> (case stress_grad of
           None \<Rightarrow> out ''stresses'' = None
         | Some g \<Rightarrow> (\<exists>stresses. stress_of vol g = Inr stresses
                        \<and> out ''stresses'' = Some stresses))"
proof -
  from assms have name: "\<not> (model_name self = ''graphormer'' \<or> model_name self = ''geomformer'')"
    by (auto simp: forward_def split: if_splits)
  define inp1 where "inp1 = inp\<lparr>atom_pos := set_requires_grad (atom_pos inp)\<rparr>"
  from assms name obtain strain inp2 vol
    where rewrite: "apply_strain (zeros_like (cell inp) ''strain'') inp1 = Inr (strain, inp2, vol)"
    by (auto simp: forward_def Let_def inp1_def split: sum.splits)
  define en where "en = Op ''model'' [node (atom_pos inp2), node (cell inp2)]"
  from assms name rewrite obtain energies
    where model: "model_forward env (params self) inp2 dataset_idx = Inr energies"
    by (auto simp: forward_def Let_def inp1_def split: sum.splits)
  from assms name rewrite model obtain grad
    where grad: "autograd_grad env (params self) inp2 dataset_idx en
                   [node (atom_pos inp2), node strain] (training self) = Inr grad"
    by (auto simp: forward_def Let_def inp1_def en_def split: sum.splits)
  from assms name rewrite model grad obtain force_grad stress_grad
    where g0: "py_nth grad 0 = Some force_grad" and g1: "py_nth grad 1 = Some stress_grad"
    by (auto simp: forward_def Let_def inp1_def en_def split: option.splits)
  have g1': "py_nth grad (Suc 0) = Some stress_grad" using g1 by simp
  obtain rest where shape: "grad = force_grad # stress_grad # rest"
    using g0 g1 by (cases grad; cases "tl grad") (auto simp: py_nth_def split: if_splits)
  define out1 where "out1 = (case force_grad of
      None \<Rightarrow> [''total_energy'' \<mapsto> Scalars energies]
    | Some g \<Rightarrow> [''total_energy'' \<mapsto> Scalars energies, ''forces'' \<mapsto> tneg g])"
  define tr4 where "tr4 = [Requires_grad (node (atom_pos inp)), Requires_grad (node strain),
      Assign ''cell'' (node (cell inp2)), Assign ''atom_pos'' (node (atom_pos inp2)),
      Model_forward (node (atom_pos inp2)) (node (cell inp2)) dataset_idx,
      Autograd_grad en [node (atom_pos inp2), node strain] (training self)]"
  have result: "(case stress_grad of
        None \<Rightarrow> Inr (out1, inp2, tr4)
      | Some g \<Rightarrow> (case stress_of vol g of
                     Inl e \<Rightarrow> Inl e
                   | Inr stresses \<Rightarrow> Inr (out1(''stresses'' \<mapsto> stresses), inp2, tr4)))
      = Inr (out, inp', tr)"
    unfolding out1_def tr4_def
    using assms name
    by (simp add: forward_def Let_def inp1_def [symmetric] rewrite model
        en_def [symmetric] grad g0 g1')
  have out1: "out1 ''forces'' = map_option tneg force_grad" "out1 ''stresses'' = None"
    "out1 ''total_energy'' = Some (Scalars energies)"
    by (simp_all add: out1_def split: option.splits)
  show ?thesis
  proof (cases stress_grad)
    case None
    with result have "out = out1" "inp' = inp2" "tr = tr4" by simp_all
    then show ?thesis
      using None grad out1 rewrite model
      by (simp add: shape en_def tr4_def inp1_def)
  next
    case (Some g)
    with result obtain stresses where s: "stress_of vol g = Inr stresses"
      and eqs: "out = out1(''stresses'' \<mapsto> stresses)" "inp' = inp2" "tr = tr4"
      by (auto split: sum.splits)
    then show ?thesis
      using Some grad out1 rewrite model
      by (simp add: shape en_def tr4_def inp1_def)
  qed
qed

lemma node_strain:
  "apply_strain (zeros_like c ''strain'') inp = Inr (strain, inp', vol) \<Longrightarrow>
     node strain = Fresh ''strain'' \<and> requires_grad strain
     \<and> data strain = map (\<lambda>m. zero3) (data c)"
  by (drule apply_strain_Inr(1)) (simp add: set_requires_grad_def zeros_like_def)

text \<open>
  Claim C1. When \<open>forward\<close> is called with \<open>include_forces\<close> and \<open>include_stresses\<close> both true
  and returns, it has called \<open>torch.autograd.grad\<close> exactly once, on the energies, with the
  two inputs (rewritten positions, strain) together; the forces are the negated first
  gradient of that call, and the stresses are its second gradient, structure by
  structure multiplied by one over the determinant of that structure's strained cell and
  by 160.21766208. A gradient that is \<open>None\<close> leaves its key out.
\<close>

theorem forward_joint_gradient:
  assumes "forward env self inp True True dataset_idx = Inr (out, inp', tr)"
  shows "\<exists>force_grad stress_grad rest.
       filter is_autograd tr =
         [Autograd_grad (Op ''model'' [node (atom_pos inp'), node (cell inp')])
            [node (atom_pos inp'), Fresh ''strain''] (training self)]
     \<and> autograd_grad env (params self) inp' dataset_idx
           (Op ''model'' [node (atom_pos inp'), node (cell inp')])
           [node (atom_pos inp'), Fresh ''strain''] (training self)
         = Inr (force_grad # stress_grad # rest)
     \<and> out ''forces'' = map_option tneg force_grad
     \<and> out ''stresses'' =
         map_option
           (\<lambda>g. case g of
                  Mats gs \<Rightarrow>
                    Mats (map2 (\<lambda>c m. mat_map (\<lambda>x. 1 / det3 c * x * (16021766208 / 100000000)) m)
                            (data (cell inp')) gs)
                | _ \<Rightarrow> g)
           stress_grad
     \<and> (\<forall>g. stress_grad = Some g \<longrightarrow>
           (\<exists>gs. g = Mats gs \<and> length gs = length (data (cell inp'))))"
proof -
  from forward_both_Inr [OF assms] obtain strain vol energies force_grad stress_grad rest
    where rewrite: "apply_strain (zeros_like (cell inp) ''strain'')
           (inp\<lparr>atom_pos := set_requires_grad (atom_pos inp)\<rparr>) = Inr (strain, inp', vol)"
      and grad: "autograd_grad env (params self) inp' dataset_idx
           (Op ''model'' [node (atom_pos inp'), node (cell inp')])
           [node (atom_pos inp'), node strain] (training self)
         = Inr (force_grad # stress_grad # rest)"
      and tr: "tr = [Requires_grad (node (atom_pos inp)), Requires_grad (node strain),
             Assign ''cell'' (node (cell inp')), Assign ''atom_pos'' (node (atom_pos inp')),
             Model_forward (node (atom_pos inp')) (node (cell inp')) dataset_idx,
             Autograd_grad (Op ''model'' [node (atom_pos inp'), node (cell inp')])
               [node (atom_pos inp'), node strain] (training self)]"
      and forces: "out ''forces'' = map_option tneg force_grad"
      and stresses: "case stress_grad of
           None \<Rightarrow> out ''stresses'' = None
         | Some g \<Rightarrow> (\<exists>stresses. stress_of vol g = Inr stresses
                        \<and> out ''stresses'' = Some stresses)"
    by blast
  have strain: "node strain = Fresh ''strain''"
    using node_strain [OF rewrite] by simp
  have vol: "vol = map det3 (data (cell inp'))"
    by (rule apply_strain_Inr(2) [OF rewrite])
  have "out ''stresses'' =
         map_option
           (\<lambda>g. case g of
                  Mats gs \<Rightarrow>
                    Mats (map2 (\<lambda>c m. mat_map (\<lambda>x. 1 / det3 c * x * (16021766208 / 100000000)) m)
                            (data (cell inp')) gs)
                | _ \<Rightarrow> g)
           stress_grad
     \<and> (\<forall>g. stress_grad = Some g \<longrightarrow>
           (\<exists>gs. g = Mats gs \<and> length gs = length (data (cell inp'))))"
  proof (cases stress_grad)
    case None
    with stresses show ?thesis by simp
  next
    case (Some g)
    with stresses obtain s where s: "stress_of vol g = Inr s" "out ''stresses'' = Some s"
      by auto
    from stress_of_Inr [OF s(1)] obtain gs where gs: "g = Mats gs" "length gs = length vol"
      "s = Mats (map2 (\<lambda>v m. mat_map (\<lambda>x. 1 / v * x * (16021766208 / 100000000)) m) vol gs)"
      by blast
    have "map2 (\<lambda>v m. mat_map (\<lambda>x. 1 / v * x * (16021766208 / 100000000)) m) vol gs =
        map2 (\<lambda>c m. mat_map (\<lambda>x. 1 / det3 c * x * (16021766208 / 100000000)) m)
          (data (cell inp')) gs"
      unfolding vol by (simp add: zip_map1 case_prod_unfold)
    with Some s(2) gs show ?thesis by (simp add: vol)
  qed
  with grad forces show ?thesis
    unfolding tr strain by simp
qed

lemma demo_autograd:
  "autograd_grad demo_torch w demo_strained d out
       [node (atom_pos demo_strained), Fresh ''strain''] create_graph =
     Inr [Some (Vecs [(0, 0, 0), (0, 0, 0), (0, 0, 0)]),
          Some (Mats [((8, 0, 0), (0, 8, 0), (0, 0, 8)), ((4, 0, 0), (0, 4, 0), (0, 0, 4))])]"
  by (simp add: demo_torch_def demo_strained_def det3_def mat_map_def vec_map_def eye3_def)

lemma demo_forward_both:
  "\<exists>out. forward demo_torch demo_self demo_input True True (- 1) =
     Inr (out, demo_strained,
          [Requires_grad (Leaf ''atom_pos''), Requires_grad (Fresh ''strain''),
           Assign ''cell'' (node (cell demo_strained)),
           Assign ''atom_pos'' (node (atom_pos demo_strained)),
           Model_forward (node (atom_pos demo_strained)) (node (cell demo_strained)) (- 1),
           Autograd_grad (Op ''model'' [node (atom_pos demo_strained), node (cell demo_strained)])
             [node (atom_pos demo_strained), Fresh ''strain''] True])"
proof -
  have rewrite: "apply_strain (zeros_like (cell demo_input) ''strain'')
      (demo_input\<lparr>atom_pos := set_requires_grad (atom_pos demo_input)\<rparr>) =
      Inr (\<lparr>data = [zero3, zero3], requires_grad = True, node = Fresh ''strain''\<rparr>,
           demo_strained, [8, 4])"
    using demo_apply_strain [of True] by (simp add: set_requires_grad_def)
  have energies: "model_forward demo_torch w demo_strained d = Inr [8, 4]" for w d
    by (simp add: demo_torch_def demo_strained_def det3_def)
  have self: "model_name demo_self = ''m3gnet''" "training demo_self"
    by (simp_all add: demo_self_def)
  have leaf: "node (atom_pos demo_input) = Leaf ''atom_pos''"
    by (simp add: demo_input_def)
  show ?thesis
    by (simp add: forward_def Let_def rewrite energies self leaf demo_autograd py_nth_def
        stress_of_def)
qed

theorem forward_joint_gradient_witness:
  "\<exists>out inp' tr. forward demo_torch demo_self demo_input True True (- 1) = Inr (out, inp', tr)
     \<and> filter is_autograd tr =
         [Autograd_grad (Op ''model'' [node (atom_pos demo_strained), node (cell demo_strained)])
            [node (atom_pos demo_strained), Fresh ''strain''] True]
     \<and> out ''forces'' = Some (Vecs [(0, 0, 0), (0, 0, 0), (0, 0, 0)])
     \<and> out ''stresses'' =
         Some (Mats [mat_map (\<lambda>x. 1 / 8 * x * (16021766208 / 100000000))
                       ((8, 0, 0), (0, 8, 0), (0, 0, 8)),
                     mat_map (\<lambda>x. 1 / 4 * x * (16021766208 / 100000000))
                       ((4, 0, 0), (0, 4, 0), (0, 0, 4))])"
proof -
  from demo_forward_both obtain out tr
    where run: "forward demo_torch demo_self demo_input True True (- 1) =
      Inr (out, demo_strained, tr)"
    by blast
  have cells: "data (cell demo_strained) =
      [((2, 0, 0), (0, 2, 0), (0, 0, 2)), ((1, 0, 0), (0, 1, 0), (0, 0, 4))]"
    by (simp add: demo_strained_def)
  have training: "training demo_self" by (simp add: demo_self_def)
  from forward_joint_gradient [OF run]
  have "filter is_autograd tr =
         [Autograd_grad (Op ''model'' [node (atom_pos demo_strained), node (cell demo_strained)])
            [node (atom_pos demo_strained), Fresh ''strain''] True]
     \<and> out ''forces'' = Some (Vecs [(0, 0, 0), (0, 0, 0), (0, 0, 0)])
     \<and> out ''stresses'' =
         Some (Mats [mat_map (\<lambda>x. 1 / 8 * x * (16021766208 / 100000000))
                       ((8, 0, 0), (0, 8, 0), (0, 0, 8)),
                     mat_map (\<lambda>x. 1 / 4 * x * (16021766208 / 100000000))
                       ((4, 0, 0), (0, 4, 0), (0, 0, 4))])"
    by (auto simp: demo_autograd cells training det3_def tneg_def vec_map_def)
  with run show ?thesis by blast
qed

subsection \<open>The strain rewrite of the cell and the positions\<close>

lemma owner_concat_replicate:
  assumes "length ns = length xs" and "\<not> list_ex (\<lambda>r. r < 0) ns"
    and "k < length (concat (map2 (\<lambda>x r. replicate (nat r) x) xs ns))"
  shows "concat (map2 (\<lambda>x r. replicate (nat r) x) xs ns) ! k = xs ! owner ns k
     \<and> owner ns k < length xs"
  using assms
proof (induction ns arbitrary: xs k)
  case Nil
  then show ?case by simp
next
  case (Cons n ns)
  then obtain x xs' where xs: "xs = x # xs'" by (cases xs) auto
  show ?case
  proof (cases "k < nat n")
    case True
    then show ?thesis by (simp add: xs nth_append)
  next
    case False
    with Cons.prems have "k - nat n < length (concat (map2 (\<lambda>x r. replicate (nat r) x) xs' ns))"
      by (auto simp: xs)
    with Cons.IH [of xs' "k - nat n"] Cons.prems False show ?thesis
      by (simp add: xs nth_append)
  qed
qed

lemma length_concat_replicate:
  "length ns = length xs \<Longrightarrow>
     length (concat (map2 (\<lambda>x r. replicate (nat r) x) xs ns)) = sum_list (map nat ns)"
proof (induction ns arbitrary: xs)
  case Nil
  then show ?case by simp
next
  case (Cons n ns)
  then show ?case by (cases xs) auto
qed

text \<open>The rewrite on a batch whose counts fit its cells and atoms: it returns, the cell
  of every structure is multiplied by one plus its strain, and the position of every atom
  by one plus the strain of the structure that owns it.\<close>

lemma apply_strain_values:
  assumes "apply_strain s inp = Inr (strain, inp', vol)"
    and "length (data s) = length (data (cell inp))"
    and "length (num_atoms inp) = length (data (cell inp))"
    and "sum_list (map nat (num_atoms inp)) = length (data (atom_pos inp))"
  shows "data (cell inp') = map2 (\<lambda>c e. mat_mul c (mat_add eye3 e)) (data (cell inp)) (data s)"
    and "length (data (atom_pos inp')) = length (data (atom_pos inp))"
    and "\<forall>k < length (data (atom_pos inp)).
           data (atom_pos inp') ! k =
             vec_mat (data (atom_pos inp) ! k) (mat_add eye3 (data s ! owner (num_atoms inp) k))
           \<and> owner (num_atoms inp) k < length (data s)"
proof -
  from apply_strain_Inr(5) [OF assms(1)] assms(2)
  show "data (cell inp') = map2 (\<lambda>c e. mat_mul c (mat_add eye3 e)) (data (cell inp)) (data s)"
    by (simp add: broadcast2_def zip_map2 case_prod_unfold comp_def)
  from apply_strain_Inr(6) [OF assms(1)] obtain aug
    where aug: "repeat_interleave (data s) (num_atoms inp) = Inr aug"
      and pos: "broadcast2 vec_mat (data (atom_pos inp)) (map (mat_add eye3) aug)
                 = Inr (data (atom_pos inp'))"
    by blast
  have counts: "length (num_atoms inp) = length (data s)" using assms(2,3) by simp
  from aug counts have nonneg: "\<not> list_ex (\<lambda>r. r < 0) (num_atoms inp)"
    and aug_eq: "aug = concat (map2 (\<lambda>x r. replicate (nat r) x) (data s) (num_atoms inp))"
    by (auto simp: repeat_interleave_def split: if_splits)
  have len: "length aug = length (data (atom_pos inp))"
    using length_concat_replicate [OF counts] assms(4) by (simp add: aug_eq)
  from pos len have pos': "data (atom_pos inp') =
      map2 vec_mat (data (atom_pos inp)) (map (mat_add eye3) aug)"
    by (simp add: broadcast2_def)
  then show "length (data (atom_pos inp')) = length (data (atom_pos inp))"
    using len by simp
  show "\<forall>k < length (data (atom_pos inp)).
           data (atom_pos inp') ! k =
             vec_mat (data (atom_pos inp) ! k) (mat_add eye3 (data s ! owner (num_atoms inp) k))
           \<and> owner (num_atoms inp) k < length (data s)"
  proof (intro allI impI)
    fix k assume k: "k < length (data (atom_pos inp))"
    then have "k < length (concat (map2 (\<lambda>x r. replicate (nat r) x) (data s) (num_atoms inp)))"
      using len by (simp add: aug_eq)
    from owner_concat_replicate [OF counts nonneg this]
    show "data (atom_pos inp') ! k =
             vec_mat (data (atom_pos inp) ! k) (mat_add eye3 (data s ! owner (num_atoms inp) k))
           \<and> owner (num_atoms inp) k < length (data s)"
      using k len by (simp add: pos' aug_eq [symmetric])
  qed
qed

lemma mat_mul_eye_plus_zero: "mat_mul c (mat_add eye3 zero3) = c"
  by (cases c rule: prod_cases3; cases "fst c" rule: prod_cases3)
     (auto simp: mat_mul_def mat_add_def vec_add_def eye3_def zero3_def vec_mat_def
       split: prod.splits)

lemma vec_mat_eye_plus_zero: "vec_mat v (mat_add eye3 zero3) = v"
  by (cases v rule: prod_cases3)
     (simp add: mat_add_def vec_add_def eye3_def zero3_def vec_mat_def)

text \<open>A returning call that asks for stresses, taken apart for either value of
  \<open>include_forces\<close>: the rewrite it made and its events.\<close>

lemma forward_stress_Inr:
  assumes "forward env self inp include_forces True dataset_idx = Inr (out, inp', tr)"
  shows "\<exists>strain vol.
       apply_strain (zeros_like (cell inp) ''strain'')
           (if include_forces then inp\<lparr>atom_pos := set_requires_grad (atom_pos inp)\<rparr> else inp)
         = Inr (strain, inp', vol)
     \<and> tr = (if include_forces then [Requires_grad (node (atom_pos inp))] else [])
            @ [Requires_grad (node strain), Assign ''cell'' (node (cell inp')),
               Assign ''atom_pos'' (node (atom_pos inp')),
               Model_forward (node (atom_pos inp')) (node (cell inp')) dataset_idx]
            @ (if include_forces
               then [Autograd_grad (Op ''model'' [node (atom_pos inp'), node (cell inp')])
                       [node (atom_pos inp'), node strain] (training self)]
               else [])"
proof (cases include_forces)
  case True
  with forward_both_Inr [of env self inp dataset_idx out inp' tr] assms show ?thesis
    by auto
next
  case False
  with assms show ?thesis
    by (auto simp: forward_def Let_def split: if_splits sum.splits)
qed

text \<open>
  Claim C4. A call of \<open>forward\<close> with \<open>include_stresses\<close> true that returns, on a batch
  whose per-structure atom counts fit its cells and its atoms: the strain is a zero
  tensor with one matrix per cell, marked differentiable; the cell of every structure has
  become \<open>cell \<cdot> (I + strain)\<close> and the position of every atom
  \<open>pos \<cdot> (I + strain of the owning structure)\<close>; the volume the call goes on with is the
  determinant of the rewritten cell. The events are in this order: with \<open>include_forces\<close>
  the caller's positions are marked differentiable first, then the strain is marked and
  cell and positions are rewritten, the model is called, and the differentiation is by
  the rewritten positions and the strain.
\<close>

theorem forward_strain_rewrite:
  assumes "forward env self inp include_forces True dataset_idx = Inr (out, inp', tr)"
    and "length (num_atoms inp) = length (data (cell inp))"
    and "sum_list (map nat (num_atoms inp)) = length (data (atom_pos inp))"
  shows "\<exists>strain vol.
       apply_strain (zeros_like (cell inp) ''strain'')
           (if include_forces then inp\<lparr>atom_pos := set_requires_grad (atom_pos inp)\<rparr> else inp)
         = Inr (strain, inp', vol)
     \<and> data strain = map (\<lambda>c. zero3) (data (cell inp))
     \<and> requires_grad strain \<and> node strain = Fresh ''strain''
     \<and> data (cell inp') =
         map2 (\<lambda>c e. mat_mul c (mat_add eye3 e)) (data (cell inp)) (data strain)
     \<and> length (data (atom_pos inp')) = length (data (atom_pos inp))
     \<and> (\<forall>k < length (data (atom_pos inp)).
           data (atom_pos inp') ! k =
             vec_mat (data (atom_pos inp) ! k)
               (mat_add eye3 (data strain ! owner (num_atoms inp) k)))
     \<and> vol = map det3 (data (cell inp'))
     \<and> node (cell inp') =
         Op ''matmul'' [node (cell inp), Op ''add'' [Fresh ''eye'', Fresh ''strain'']]
     \<and> node (atom_pos inp') =
         Op ''einsum bi, bij -> bj''
           [node (atom_pos inp),
            Op ''add'' [Fresh ''eye'',
                        Op ''repeat_interleave'' [Fresh ''strain'', Leaf ''num_atoms'']]]
     \<and> tr = (if include_forces then [Requires_grad (node (atom_pos inp))] else [])
            @ [Requires_grad (Fresh ''strain''), Assign ''cell'' (node (cell inp')),
               Assign ''atom_pos'' (node (atom_pos inp')),
               Model_forward (node (atom_pos inp')) (node (cell inp')) dataset_idx]
            @ (if include_forces
               then [Autograd_grad (Op ''model'' [node (atom_pos inp'), node (cell inp')])
                       [node (atom_pos inp'), Fresh ''strain''] (training self)]
               else [])"
proof -
  define inp1 where "inp1 =
    (if include_forces then inp\<lparr>atom_pos := set_requires_grad (atom_pos inp)\<rparr> else inp)"
  define s where "s = zeros_like (cell inp) ''strain''"
  from forward_stress_Inr [OF assms(1)] obtain strain vol
    where rewrite: "apply_strain s inp1 = Inr (strain, inp', vol)"
      and tr: "tr = (if include_forces then [Requires_grad (node (atom_pos inp))] else [])
            @ [Requires_grad (node strain), Assign ''cell'' (node (cell inp')),
               Assign ''atom_pos'' (node (atom_pos inp')),
               Model_forward (node (atom_pos inp')) (node (cell inp')) dataset_idx]
            @ (if include_forces
               then [Autograd_grad (Op ''model'' [node (atom_pos inp'), node (cell inp')])
                       [node (atom_pos inp'), node strain] (training self)]
               else [])"
    unfolding inp1_def s_def by blast
  have inp1: "data (cell inp1) = data (cell inp)" "num_atoms inp1 = num_atoms inp"
    "data (atom_pos inp1) = data (atom_pos inp)" "node (cell inp1) = node (cell inp)"
    "node (atom_pos inp1) = node (atom_pos inp)"
    by (simp_all add: inp1_def set_requires_grad_def)
  have s: "data s = map (\<lambda>c. zero3) (data (cell inp))" "node s = Fresh ''strain''"
    by (simp_all add: s_def zeros_like_def)
  have strain: "data strain = data s" "requires_grad strain" "node strain = Fresh ''strain''"
    using apply_strain_Inr(1) [OF rewrite] by (simp_all add: set_requires_grad_def s)
  have len: "length (data s) = length (data (cell inp1))" by (simp add: s inp1)
  note vals = apply_strain_values [OF rewrite len, unfolded inp1, OF assms(2,3)]
  note nodes = apply_strain_Inr(2,3,4) [OF rewrite, unfolded inp1 s]
  show ?thesis
    using rewrite vals nodes strain s(1) tr
    unfolding inp1_def [symmetric] s_def [symmetric]
    by (intro exI [of _ strain] exI [of _ vol]) simp
qed

theorem forward_strain_rewrite_witness:
  "\<exists>out inp' tr. forward demo_torch demo_self demo_input True True (- 1) = Inr (out, inp', tr)
     \<and> data (cell inp') =
         [mat_mul ((2, 0, 0), (0, 2, 0), (0, 0, 2)) (mat_add eye3 zero3),
          mat_mul ((1, 0, 0), (0, 1, 0), (0, 0, 4)) (mat_add eye3 zero3)]
     \<and> data (atom_pos inp') ! 2 = vec_mat (1, 1, 1) (mat_add eye3 zero3)
     \<and> take 4 tr = [Requires_grad (Leaf ''atom_pos''), Requires_grad (Fresh ''strain''),
                    Assign ''cell'' (node (cell inp')), Assign ''atom_pos'' (node (atom_pos inp'))]"
proof -
  from demo_forward_both obtain out tr
    where run: "forward demo_torch demo_self demo_input True True (- 1) =
      Inr (out, demo_strained, tr)"
    by blast
  have counts: "length (num_atoms demo_input) = length (data (cell demo_input))"
    "sum_list (map nat (num_atoms demo_input)) = length (data (atom_pos demo_input))"
    by (simp_all add: demo_input_def)
  from forward_strain_rewrite [OF run counts]
  have "data (cell demo_strained) =
         [mat_mul ((2, 0, 0), (0, 2, 0), (0, 0, 2)) (mat_add eye3 zero3),
          mat_mul ((1, 0, 0), (0, 1, 0), (0, 0, 4)) (mat_add eye3 zero3)]
     \<and> data (atom_pos demo_strained) ! 2 = vec_mat (1, 1, 1) (mat_add eye3 zero3)
     \<and> take 4 tr = [Requires_grad (Leaf ''atom_pos''), Requires_grad (Fresh ''strain''),
                    Assign ''cell'' (node (cell demo_strained)),
                    Assign ''atom_pos'' (node (atom_pos demo_strained))]"
    by (auto simp: demo_input_def)
  with run show ?thesis by blast
qed

section \<open>Properties of the loss and of an epoch\<close>

subsection \<open>Composition of the loss\<close>

lemma and_then_Inr:
  "and_then r k = Inr y \<longleftrightarrow> (\<exists>x. r = Inr x \<and> k x = Inr y)"
  by (cases r) (simp_all add: and_then_def)

lemma lookup_Inr: "lookup d key = Inr v \<longleftrightarrow> d key = Some v"
  by (simp add: lookup_def split: option.splits)

text \<open>
  Claim C5. When \<open>loss_calc\<close> returns, its scalar loss is the sum of three terms and its
  mean absolute errors are three slots. With \<open>include_energy\<close> the energy term is the loss
  function, and the energy slot the mean absolute error, of predicted and true total
  energies each divided by the atom counts. With \<open>include_forces\<close> (\<open>include_stresses\<close>) the
  term is the loss function of the raw predicted and true forces (stresses) times
  \<open>loss_f\<close> (\<open>loss_s\<close>), and the slot is their mean absolute error, unweighted and not
  divided by the atom counts. An excluded quantity has term zero and slot zero.
\<close>

theorem loss_calc_composition:
  assumes "loss_calc self graph_batch result loss include_energy include_forces
             include_stresses loss_f loss_s = Inr (l, e_mae, f_mae, s_mae)"
  shows "\<exists>l_e l_f l_s.
       l = l_e + l_f * loss_f + l_s * loss_s
     \<and> (if include_energy
        then \<exists>total e_pred e_gt.
               result ''total_energy'' = Some total
             \<and> per_atom total (num_atoms (batch_input graph_batch)) = Inr e_pred
             \<and> per_atom (energy graph_batch) (num_atoms (batch_input graph_batch)) = Inr e_gt
             \<and> loss e_pred e_gt = Inr l_e \<and> L1Loss e_pred e_gt = Inr e_mae
        else l_e = 0 \<and> e_mae = 0)
     \<and> (if include_forces
        then \<exists>f_pred. result ''forces'' = Some f_pred
             \<and> loss f_pred (forces graph_batch) = Inr l_f
             \<and> L1Loss f_pred (forces graph_batch) = Inr f_mae
        else l_f = 0 \<and> f_mae = 0)
     \<and> (if include_stresses
        then \<exists>s_pred. result ''stresses'' = Some s_pred
             \<and> loss s_pred (stress graph_batch) = Inr l_s
             \<and> L1Loss s_pred (stress graph_batch) = Inr s_mae
        else l_s = 0 \<and> s_mae = 0)"
proof -
  define E where "E = (if include_energy then
             and_then (per_atom (energy graph_batch) (num_atoms (batch_input graph_batch)))
               (\<lambda>e_gt. and_then (lookup result ''total_energy'')
               (\<lambda>total. and_then (per_atom total (num_atoms (batch_input graph_batch)))
               (\<lambda>e_pred. and_then (loss e_pred e_gt)
               (\<lambda>l. and_then (L1Loss e_pred e_gt)
               (\<lambda>e_mae. Inr (0 + l, e_mae))))))
           else Inr (0, 0))"
  define F where "F = (\<lambda>loss1. if include_forces then
             and_then (lookup result ''forces'')
               (\<lambda>f_pred. and_then (loss f_pred (forces graph_batch))
               (\<lambda>l. and_then (L1Loss f_pred (forces graph_batch))
               (\<lambda>f_mae. Inr (loss1 + l * loss_f, f_mae))))
           else Inr (loss1 :: real, 0 :: real))"
  define S where "S = (\<lambda>loss2. if include_stresses then
             and_then (lookup result ''stresses'')
               (\<lambda>s_pred. and_then (loss s_pred (stress graph_batch))
               (\<lambda>l. and_then (L1Loss s_pred (stress graph_batch))
               (\<lambda>s_mae. Inr (loss2 + l * loss_s, s_mae))))
           else Inr (loss2 :: real, 0 :: real))"
  from assms have name: "\<not> (model_name self = ''graphormer'' \<or> model_name self = ''geomformer'')"
    by (auto simp: loss_calc_def split: if_splits)
  have "loss_calc self graph_batch result loss include_energy include_forces
             include_stresses loss_f loss_s =
      and_then E (\<lambda>(loss1, e_mae). and_then (F loss1) (\<lambda>(loss2, f_mae).
        and_then (S loss2) (\<lambda>(loss3, s_mae). Inr (loss3, e_mae, f_mae, s_mae))))"
    using name unfolding loss_calc_def E_def F_def S_def by simp
  with assms obtain loss1 loss2
    where e: "E = Inr (loss1, e_mae)" and f: "F loss1 = Inr (loss2, f_mae)"
      and s: "S loss2 = Inr (l, s_mae)"
    by (auto simp: and_then_Inr)
  from e have energy_part: "if include_energy
        then \<exists>total e_pred e_gt.
               result ''total_energy'' = Some total
             \<and> per_atom total (num_atoms (batch_input graph_batch)) = Inr e_pred
             \<and> per_atom (energy graph_batch) (num_atoms (batch_input graph_batch)) = Inr e_gt
             \<and> loss e_pred e_gt = Inr loss1 \<and> L1Loss e_pred e_gt = Inr e_mae
        else loss1 = 0 \<and> e_mae = 0"
    unfolding E_def by (auto simp: and_then_Inr lookup_Inr split: if_splits)
  from f obtain l_f where forces_part: "loss2 = loss1 + l_f * loss_f"
      "if include_forces
        then \<exists>f_pred. result ''forces'' = Some f_pred
             \<and> loss f_pred (forces graph_batch) = Inr l_f
             \<and> L1Loss f_pred (forces graph_batch) = Inr f_mae
        else l_f = 0 \<and> f_mae = 0"
    unfolding F_def by (cases include_forces) (auto simp: and_then_Inr lookup_Inr)
  from s obtain l_s where stress_part: "l = loss2 + l_s * loss_s"
      "if include_stresses
        then \<exists>s_pred. result ''stresses'' = Some s_pred
             \<and> loss s_pred (stress graph_batch) = Inr l_s
             \<and> L1Loss s_pred (stress graph_batch) = Inr s_mae
        else l_s = 0 \<and> s_mae = 0"
    unfolding S_def by (cases include_stresses) (auto simp: and_then_Inr lookup_Inr)
  from energy_part forces_part stress_part show ?thesis
    by (intro exI [of _ loss1] exI [of _ l_f] exI [of _ l_s]) simp
qed

lemma demo_loss_calc:
  "loss_calc demo_self demo_batch demo_result MSELoss True True True 1 (1 / 10) =
     Inr (1 + 1 / 9 * 1 + 1 / 2 * (1 / 10), 1, 1 / 9, 1 / 6)"
  by (simp add: loss_calc_def and_then_def lookup_def demo_self_def demo_batch_def
      demo_result_def demo_input_def per_atom_def broadcast2_def MSELoss_def L1Loss_def
      same_shape_def flatten_def zero3_def)

theorem loss_calc_composition_witness:
  "loss_calc demo_self demo_batch demo_result MSELoss True True True 1 (1 / 10) =
     Inr (1 + 1 / 9 * 1 + 1 / 2 * (1 / 10), 1, 1 / 9, 1 / 6)
   \<and> (\<exists>l_e l_f l_s.
         1 + 1 / 9 * 1 + 1 / 2 * (1 / 10) = l_e + l_f * 1 + l_s * (1 / 10)
       \<and> MSELoss (Scalars [4, 4]) (Scalars [5, 5]) = Inr l_e
       \<and> L1Loss (Scalars [4, 4]) (Scalars [5, 5]) = Inr 1
       \<and> MSELoss (Vecs [(0, 0, 0), (0, 0, 0), (0, 0, 0)]) (forces demo_batch) = Inr l_f
       \<and> L1Loss (Vecs [(0, 0, 0), (0, 0, 0), (0, 0, 0)]) (forces demo_batch) = Inr (1 / 9)
       \<and> MSELoss (Mats [((3, 0, 0), (0, 0, 0), (0, 0, 0)), zero3]) (stress demo_batch) = Inr l_s
       \<and> L1Loss (Mats [((3, 0, 0), (0, 0, 0), (0, 0, 0)), zero3]) (stress demo_batch)
           = Inr (1 / 6))"
proof -
  have e_pred: "per_atom (Scalars [8, 4]) (num_atoms (batch_input demo_batch)) =
      Inr (Scalars [4, 4])"
    and e_gt: "per_atom (energy demo_batch) (num_atoms (batch_input demo_batch)) =
      Inr (Scalars [5, 5])"
    by (simp_all add: demo_batch_def demo_input_def per_atom_def broadcast2_def)
  from loss_calc_composition [OF demo_loss_calc]
  obtain l_e l_f l_s where
    "1 + 1 / 9 * 1 + 1 / 2 * (1 / 10) = l_e + l_f * 1 + l_s * (1 / 10 :: real)"
    "\<exists>total e_pred e_gt.
               demo_result ''total_energy'' = Some total
             \<and> per_atom total (num_atoms (batch_input demo_batch)) = Inr e_pred
             \<and> per_atom (energy demo_batch) (num_atoms (batch_input demo_batch)) = Inr e_gt
             \<and> MSELoss e_pred e_gt = Inr l_e \<and> L1Loss e_pred e_gt = Inr 1"
    "\<exists>f_pred. demo_result ''forces'' = Some f_pred
             \<and> MSELoss f_pred (forces demo_batch) = Inr l_f
             \<and> L1Loss f_pred (forces demo_batch) = Inr (1 / 9)"
    "\<exists>s_pred. demo_result ''stresses'' = Some s_pred
             \<and> MSELoss s_pred (stress demo_batch) = Inr l_s
             \<and> L1Loss s_pred (stress demo_batch) = Inr (1 / 6)"
    by auto
  then show ?thesis
    using demo_loss_calc e_pred e_gt
    by (intro conjI exI [of _ l_e] exI [of _ l_f] exI [of _ l_s])
       (auto simp: demo_result_def)
qed

subsection \<open>Validation under the shadow weights\<close>

text \<open>\<open>forward\<close> and \<open>loss_calc\<close> read the name, the weights and the mode of the model and
  nothing else of the object.\<close>

lemma forward_reads:
  assumes "model_name s = model_name t" and "params s = params t" and "training s = training t"
  shows "forward env s inp include_forces include_stresses dataset_idx =
     forward env t inp include_forces include_stresses dataset_idx"
  unfolding forward_def assms ..

lemma loss_calc_reads:
  assumes "model_name s = model_name t"
  shows "loss_calc s graph_batch result loss include_energy include_forces include_stresses
           loss_f loss_s =
     loss_calc t graph_batch result loss include_energy include_forces include_stresses
           loss_f loss_s"
  unfolding loss_calc_def assms ..

lemma process_batch_val:
  assumes "ep_mode a = ''val''"
  shows "process_batch env a dataset_idx self graph_batch =
     (evaluate_batch env a self (shadow_params (ema self)) dataset_idx graph_batch,
      self\<lparr>ema := (ema self)\<lparr>collected_params := Some (params self)\<rparr>\<rparr>)"
proof -
  define shadowed where "shadowed = self\<lparr>params := shadow_params (ema self)\<rparr>"
  define restored where
    "restored = self\<lparr>ema := (ema self)\<lparr>collected_params := Some (params self)\<rparr>\<rparr>"
  have fwd: "forward env (average_parameters_enter self) inp include_forces include_stresses
        dataset_idx =
      forward env shadowed inp include_forces include_stresses dataset_idx"
    for inp include_forces include_stresses
    by (rule forward_reads) (simp_all add: average_parameters_enter_def shadowed_def)
  have loss: "loss_calc restored graph_batch result l ie iforces is lf ls =
      loss_calc shadowed graph_batch result l ie iforces is lf ls" for result l ie iforces "is" lf ls
    by (rule loss_calc_reads) (simp add: restored_def shadowed_def)
  have mode: "forward_in_mode env self inp include_forces include_stresses dataset_idx ''val'' =
      (forward env shadowed inp include_forces include_stresses dataset_idx, restored)"
    for inp include_forces include_stresses
    by (simp add: forward_in_mode_def Let_def fwd average_parameters_round_trip restored_def)
  show ?thesis
    unfolding shadowed_def [symmetric] restored_def [symmetric]
    by (simp add: process_batch_def assms mode loss evaluate_batch_def and_then_def
        shadowed_def [symmetric] split: sum.splits prod.splits)
qed

lemma forward_unsupported:
  "model_name self = ''graphormer'' \<or> model_name self = ''geomformer'' \<Longrightarrow>
     forward env self inp include_forces include_stresses dataset_idx = Inl NotImplementedError"
  by (simp add: forward_def)

lemma evaluate_batch_reads:
  assumes "model_name s = model_name t" and "training s = training t"
  shows "evaluate_batch env a s w dataset_idx graph_batch =
     evaluate_batch env a t w dataset_idx graph_batch"
proof -
  have "forward env (s\<lparr>params := w\<rparr>) inp include_forces include_stresses dataset_idx =
      forward env (t\<lparr>params := w\<rparr>) inp include_forces include_stresses dataset_idx"
    for inp include_forces include_stresses
    by (rule forward_reads) (simp_all add: assms)
  moreover have "loss_calc (s\<lparr>params := w\<rparr>) graph_batch result l ie iforces istresses lf ls =
      loss_calc (t\<lparr>params := w\<rparr>) graph_batch result l ie iforces istresses lf ls"
    for result l ie iforces istresses lf ls
    by (rule loss_calc_reads) (simp add: assms)
  ultimately show ?thesis by (simp add: evaluate_batch_def)
qed

lemma evaluate_epoch_reads:
  assumes "model_name s = model_name t" and "training s = training t"
  shows "evaluate_epoch env a s w m dataloader = evaluate_epoch env a t w m dataloader"
  by (induction dataloader arbitrary: m)
    (simp_all add: evaluate_batch_reads [OF assms])

lemma evaluate_batch_mode:
  "evaluate_batch env (a\<lparr>ep_mode := mode\<rparr>) self w dataset_idx graph_batch =
     evaluate_batch env a self w dataset_idx graph_batch"
  by (simp add: evaluate_batch_def)

lemma evaluate_epoch_mode:
  "evaluate_epoch env (a\<lparr>ep_mode := mode\<rparr>) self w m dataloader =
     evaluate_epoch env a self w m dataloader"
  by (induction dataloader arbitrary: m) (simp_all add: evaluate_batch_mode)

lemma epoch_batches_val:
  assumes "ep_mode a = ''val''"
  shows "fst (epoch_batches env a self m dataloader) =
           evaluate_epoch env a self (shadow_params (ema self)) m dataloader
     \<and> params (snd (epoch_batches env a self m dataloader)) = params self
     \<and> shadow_params (ema (snd (epoch_batches env a self m dataloader))) =
         shadow_params (ema self)"
proof (induction dataloader arbitrary: self m)
  case Nil
  show ?case by simp
next
  case (Cons graph_batch rest)
  define restored where
    "restored = self\<lparr>ema := (ema self)\<lparr>collected_params := Some (params self)\<rparr>\<rparr>"
  define w where "w = shadow_params (ema self)"
  have step: "process_batch env a (- 1) self graph_batch =
      (evaluate_batch env a self w (- 1) graph_batch, restored)"
    by (simp add: process_batch_val [OF assms] restored_def w_def)
  show ?case
  proof (cases "model_name self = ''graphormer'' \<or> model_name self = ''geomformer''")
    case True
    then have "evaluate_batch env a self w (- 1) graph_batch = Inl NotImplementedError"
      by (simp add: evaluate_batch_def and_then_def forward_unsupported)
    with True show ?thesis by (simp add: w_def [symmetric] and_then_def)
  next
    case False
    show ?thesis
    proof (cases "evaluate_batch env a self w (- 1) graph_batch")
      case (Inl e)
      with False show ?thesis
        by (simp add: step w_def [symmetric] and_then_def restored_def)
    next
      case (Inr r)
      have same: "evaluate_epoch env a restored w m' rest = evaluate_epoch env a self w m' rest"
        for m' by (rule evaluate_epoch_reads) (simp_all add: restored_def)
      have "shadow_params (ema restored) = w" "params restored = params self"
        by (simp_all add: restored_def w_def)
      with Cons.IH [of restored] Inr False show ?thesis
        by (simp add: step w_def [symmetric] and_then_def same)
    qed
  qed
qed

text \<open>
  Claim C8. In validation mode every batch is measured by \<open>forward\<close> and \<open>loss_calc\<close> on the
  model with the shadow weights of the moving average in place of its own, and the object
  that comes back has the raw weights it had before, whether the measurement returned or
  raised. A validation epoch returns the means of these measurements over its batches, or
  the first exception among them; what it returns is the same whatever the raw weights
  are, and it leaves the raw weights and the shadow weights as they were.
\<close>

theorem validation_under_shadow_weights:
  "process_batch env (a\<lparr>ep_mode := ''val''\<rparr>) dataset_idx self graph_batch =
     (evaluate_batch env a self (shadow_params (ema self)) dataset_idx graph_batch,
      self\<lparr>ema := (ema self)\<lparr>collected_params := Some (params self)\<rparr>\<rparr>)
   \<and> fst (train_one_epoch env (a\<lparr>ep_mode := ''val''\<rparr>) self dataloader) =
       (case evaluate_epoch env a (self\<lparr>training := False\<rparr>) (shadow_params (ema self))
               no_meters dataloader of
          Inl e \<Rightarrow> Inl e
        | Inr m \<Rightarrow>
            Inr (Some (compute (loss_avg m),
                       (if ep_include_energy a then compute (train_e_mae m) else 0),
                       (if ep_include_forces a then compute (train_f_mae m) else 0),
                       (if ep_include_stresses a then compute (train_s_mae m) else 0))))
   \<and> (\<forall>w. fst (train_one_epoch env (a\<lparr>ep_mode := ''val''\<rparr>) (self\<lparr>params := w\<rparr>) dataloader) =
            fst (train_one_epoch env (a\<lparr>ep_mode := ''val''\<rparr>) self dataloader))
   \<and> params (snd (train_one_epoch env (a\<lparr>ep_mode := ''val''\<rparr>) self dataloader)) = params self
   \<and> shadow_params (ema (snd (train_one_epoch env (a\<lparr>ep_mode := ''val''\<rparr>) self dataloader)))
       = shadow_params (ema self)
   \<and> forward_in_mode env self inp include_forces include_stresses dataset_idx ''val'' =
       (forward env (self\<lparr>ema := (ema self)\<lparr>collected_params := Some (params self)\<rparr>,
                          params := shadow_params (ema self)\<rparr>)
          inp include_forces include_stresses dataset_idx,
        self\<lparr>ema := (ema self)\<lparr>collected_params := Some (params self)\<rparr>\<rparr>)"
proof -
  define val where "val = a\<lparr>ep_mode := ''val''\<rparr>"
  have mode: "ep_mode val = ''val''" by (simp add: val_def)
  have flags: "ep_include_energy val = ep_include_energy a"
    "ep_include_forces val = ep_include_forces a"
    "ep_include_stresses val = ep_include_stresses a"
    by (simp_all add: val_def)
  have batch: "process_batch env val dataset_idx self graph_batch =
     (evaluate_batch env a self (shadow_params (ema self)) dataset_idx graph_batch,
      self\<lparr>ema := (ema self)\<lparr>collected_params := Some (params self)\<rparr>\<rparr>)"
    unfolding process_batch_val [OF mode] by (simp add: val_def evaluate_batch_mode)
  have epoch: "fst (train_one_epoch env val s dataloader) =
       (case evaluate_epoch env a (s\<lparr>training := False\<rparr>) (shadow_params (ema s))
               no_meters dataloader of
          Inl e \<Rightarrow> Inl e
        | Inr m \<Rightarrow>
            Inr (Some (compute (loss_avg m),
                       (if ep_include_energy a then compute (train_e_mae m) else 0),
                       (if ep_include_forces a then compute (train_f_mae m) else 0),
                       (if ep_include_stresses a then compute (train_s_mae m) else 0))))"
    and kept: "params (snd (train_one_epoch env val s dataloader)) = params s"
      "shadow_params (ema (snd (train_one_epoch env val s dataloader))) = shadow_params (ema s)"
    for s
  proof -
    have em: "evaluate_epoch env val t w m dataloader = evaluate_epoch env a t w m dataloader"
      for t w m unfolding val_def by (rule evaluate_epoch_mode)
    define s0 where "s0 = s\<lparr>training := False\<rparr>"
    have s0: "shadow_params (ema s0) = shadow_params (ema s)" "params s0 = params s"
      by (simp_all add: s0_def)
    note run = epoch_batches_val [OF mode, of env s0 no_meters dataloader, unfolded em s0]
    obtain r s1 where res: "epoch_batches env val s0 no_meters dataloader = (r, s1)"
      by (cases "epoch_batches env val s0 no_meters dataloader")
    have whole: "train_one_epoch env val s dataloader =
        (case r of
           Inl e \<Rightarrow> (Inl e, s1)
         | Inr m \<Rightarrow>
             (Inr (Some (compute (loss_avg m),
                         (if ep_include_energy a then compute (train_e_mae m) else 0),
                         (if ep_include_forces a then compute (train_f_mae m) else 0),
                         (if ep_include_stresses a then compute (train_s_mae m) else 0))),
              s1))"
      unfolding train_one_epoch_def mode flags Let_def
      by (simp add: s0_def [symmetric] res split: sum.splits)
    from run res have r: "r = evaluate_epoch env a s0 (shadow_params (ema s)) no_meters dataloader"
      and s1: "params s1 = params s" "shadow_params (ema s1) = shadow_params (ema s)"
      by simp_all
    show "fst (train_one_epoch env val s dataloader) =
       (case evaluate_epoch env a (s\<lparr>training := False\<rparr>) (shadow_params (ema s))
               no_meters dataloader of
          Inl e \<Rightarrow> Inl e
        | Inr m \<Rightarrow>
            Inr (Some (compute (loss_avg m),
                       (if ep_include_energy a then compute (train_e_mae m) else 0),
                       (if ep_include_forces a then compute (train_f_mae m) else 0),
                       (if ep_include_stresses a then compute (train_s_mae m) else 0))))"
      unfolding whole s0_def [symmetric] r [symmetric] by (cases r) simp_all
    show "params (snd (train_one_epoch env val s dataloader)) = params s"
      unfolding whole using s1 by (cases r) simp_all
    show "shadow_params (ema (snd (train_one_epoch env val s dataloader))) =
        shadow_params (ema s)"
      unfolding whole using s1 by (cases r) simp_all
  qed
  have blind: "fst (train_one_epoch env val (self\<lparr>params := w\<rparr>) dataloader) =
      fst (train_one_epoch env val self dataloader)" for w
  proof -
    have "evaluate_epoch env a (self\<lparr>params := w, training := False\<rparr>) w' m dataloader =
        evaluate_epoch env a (self\<lparr>training := False\<rparr>) w' m dataloader" for w' m
      by (rule evaluate_epoch_reads) simp_all
    then show ?thesis by (simp add: epoch)
  qed
  have swap: "forward_in_mode env self inp include_forces include_stresses dataset_idx ''val'' =
     (forward env (self\<lparr>ema := (ema self)\<lparr>collected_params := Some (params self)\<rparr>,
                        params := shadow_params (ema self)\<rparr>)
        inp include_forces include_stresses dataset_idx,
      self\<lparr>ema := (ema self)\<lparr>collected_params := Some (params self)\<rparr>\<rparr>)"
    by (simp add: forward_in_mode_def Let_def average_parameters_exit_def
        average_parameters_enter_def)
  show ?thesis
    unfolding val_def [symmetric]
    by (intro conjI allI batch epoch blind kept swap)
qed

text \<open>Raw weights 5, shadow weights 7, an energy model that multiplies the volume by the
  weight: the validation epoch returns the errors of weight 7, and weight 5 would have
  given other numbers.\<close>

theorem validation_under_shadow_weights_witness:
  "fst (train_one_epoch demo_weighted (demo_energy_only\<lparr>ep_mode := ''val''\<rparr>) demo_self
          [demo_batch, demo_batch]) = Inr (Some (529, 23, 0, 0))
   \<and> evaluate_batch demo_weighted demo_energy_only demo_self 5 (- 1) demo_batch
       = Inr (225, 15, 0, 0)
   \<and> params (snd (train_one_epoch demo_weighted (demo_energy_only\<lparr>ep_mode := ''val''\<rparr>)
                     demo_self [demo_batch, demo_batch])) = 5"
proof -
  have flags: "\<not> ep_include_forces demo_energy_only" "\<not> ep_include_stresses demo_energy_only"
    "ep_include_energy demo_energy_only" "ep_loss demo_energy_only = MSELoss"
    by (simp_all add: demo_energy_only_def demo_epoch_def)
  have fwd: "forward demo_weighted (demo_self\<lparr>training := t, params := w\<rparr>) demo_input False False
        (- 1) =
      Inr ([''total_energy'' \<mapsto> Scalars [real w * 8, real w * 4]], demo_input,
           [Model_forward (Leaf ''atom_pos'') (Leaf ''cell'') (- 1)])" for w t
    by (simp add: forward_def demo_self_def demo_weighted_def demo_input_def Let_def det3_def
        zeros_like_def det_def)
  have loss: "loss_calc (demo_self\<lparr>training := t, params := w\<rparr>) demo_batch
        [''total_energy'' \<mapsto> Scalars [real w * 8, real w * 4]] MSELoss True False False lf ls =
      Inr ((real w * 4 - 5) * (real w * 4 - 5), \<bar>real w * 4 - 5\<bar>, 0, 0)" for w t lf ls
    by (simp add: loss_calc_def demo_self_def demo_batch_def demo_input_def and_then_def
        lookup_def per_atom_def broadcast2_def MSELoss_def L1Loss_def same_shape_def flatten_def
        mult.commute)
  have batch: "evaluate_batch demo_weighted demo_energy_only (demo_self\<lparr>training := t\<rparr>) w (- 1)
        demo_batch =
      Inr ((real w * 4 - 5) * (real w * 4 - 5), \<bar>real w * 4 - 5\<bar>, 0, 0)" for w t
    by (simp add: evaluate_batch_def flags batch_to_dict_def demo_batch_def [THEN arg_cong, of batch_input]
        fwd and_then_def loss)
  have raw: "evaluate_batch demo_weighted demo_energy_only demo_self 5 (- 1) demo_batch =
      Inr (225, 15, 0, 0)"
    using batch [of True 5] by (simp add: demo_self_def)
  have epoch: "evaluate_epoch demo_weighted demo_energy_only (demo_self\<lparr>training := False\<rparr>) 7
        no_meters [demo_batch, demo_batch] =
      Inr \<lparr>loss_avg = [529, 529], train_e_mae = [23, 23], train_f_mae = [], train_s_mae = []\<rparr>"
    by (simp add: batch and_then_def update_meters_def no_meters_def flags)
  have shadow: "shadow_params (ema demo_self) = 7" "params demo_self = 5"
    by (simp_all add: demo_self_def)
  from validation_under_shadow_weights [where env = demo_weighted and a = demo_energy_only
      and self = demo_self and dataloader = "[demo_batch, demo_batch]"]
  show ?thesis
    by (simp add: shadow epoch raw flags compute_def del: evaluate_epoch.simps)
qed

section \<open>Properties of the multi-head scheduler\<close>

subsection \<open>The accumulated lengths are the running sums\<close>

lemma length_running_sums [simp]: "length (running_sums a xs) = length xs"
  by (induction xs arbitrary: a) simp_all

lemma running_sums_nth:
  "j < length xs \<Longrightarrow> running_sums a xs ! j = a + sum_list (take (Suc j) xs)"
proof (induction xs arbitrary: a j)
  case Nil
  then show ?case by simp
next
  case (Cons x xs)
  then show ?case by (cases j) simp_all
qed

lemma running_sums_Nil [simp]: "running_sums a xs = [] \<longleftrightarrow> xs = []"
  by (cases xs) simp_all

lemma running_sums_last:
  "xs \<noteq> [] \<Longrightarrow> last (running_sums a xs) = a + sum_list xs"
  by (induction xs arbitrary: a) auto

lemma accumulate_prefix:
  assumes "1 \<le> m" and "m \<le> length lens"
  shows "length (fold (\<lambda>i xs. xs[i := xs ! i + xs ! (i - 1)]) [1..<m] lens) = length lens
     \<and> (\<forall>j < length lens.
           fold (\<lambda>i xs. xs[i := xs ! i + xs ! (i - 1)]) [1..<m] lens ! j =
             (if j < m then running_sums 0 lens ! j else lens ! j))"
  using assms
proof (induction m)
  case 0
  then show ?case by simp
next
  case (Suc m)
  show ?case
  proof (cases "m = 0")
    case True
    then show ?thesis
      using Suc.prems by (auto simp: running_sums_nth take_Suc_conv_app_nth less_Suc_eq)
  next
    case False
    define xs where "xs = fold (\<lambda>i xs. xs[i := xs ! i + xs ! (i - 1)]) [1..<m] lens"
    from False Suc have len: "length xs = length lens"
      and nth: "\<forall>j < length lens. xs ! j = (if j < m then running_sums 0 lens ! j else lens ! j)"
      by (simp_all add: xs_def)
    have m: "m < length lens" "m - 1 < m" using Suc.prems False by simp_all
    have step: "fold (\<lambda>i xs. xs[i := xs ! i + xs ! (i - 1)]) [1..<Suc m] lens =
        xs[m := xs ! m + xs ! (m - 1)]"
      using False by (simp add: xs_def)
    have sum: "running_sums 0 lens ! m = lens ! m + running_sums 0 lens ! (m - 1)"
      using m False by (simp add: running_sums_nth take_Suc_conv_app_nth)
    show ?thesis
      unfolding step using len nth m sum
      by (auto simp: nth_list_update less_Suc_eq)
  qed
qed

lemma accumulate_lengths_running_sums:
  "accumulate_lengths lens = running_sums 0 lens"
proof (cases "lens = []")
  case True
  then show ?thesis by (simp add: accumulate_lengths_def)
next
  case False
  then have "1 \<le> length lens" by (cases lens) simp_all
  from accumulate_prefix [OF this order_refl] show ?thesis
    by (intro nth_equalityI) (simp_all add: accumulate_lengths_def)
qed

subsection \<open>Resolving a flat index\<close>

lemma find_dataset_range:
  "a \<le> i \<Longrightarrow> i < a + sum_list lens \<Longrightarrow>
     k \<le> find_dataset k (running_sums a lens) i
     \<and> find_dataset k (running_sums a lens) i < k + length lens"
proof (induction lens arbitrary: a k)
  case Nil
  then show ?case by simp
next
  case (Cons x xs)
  show ?case
  proof (cases "i < a + x")
    case True
    then show ?thesis by simp
  next
    case False
    with Cons.prems have "a + x \<le> i" "i < (a + x) + sum_list xs" by simp_all
    from Cons.IH [OF this, of "Suc k"] False show ?thesis by simp
  qed
qed

text \<open>Of the flat indices, exactly as many resolve to a data set as it has batches.\<close>

lemma find_dataset_count:
  "j < length lens \<Longrightarrow>
     length (filter (\<lambda>i. find_dataset k (running_sums a lens) i = k + j)
               [a..<a + sum_list lens]) = lens ! j"
proof (induction lens arbitrary: a k j)
  case Nil
  then show ?case by simp
next
  case (Cons x xs)
  have split: "[a..<a + sum_list (x # xs)] = [a..<a + x] @ [a + x..<a + x + sum_list xs]"
    using upt_add_eq_append [of a "a + x" "sum_list xs"] by (simp add: add.assoc)
  have first: "find_dataset k (running_sums a (x # xs)) i = k" if "i \<in> set [a..<a + x]" for i
    using that by simp
  have second: "find_dataset k (running_sums a (x # xs)) i =
      find_dataset (Suc k) (running_sums (a + x) xs) i"
    and above: "Suc k \<le> find_dataset (Suc k) (running_sums (a + x) xs) i"
    if "i \<in> set [a + x..<a + x + sum_list xs]" for i
    using that find_dataset_range [of "a + x" i xs "Suc k"] by simp_all
  show ?case
  proof (cases j)
    case 0
    have "filter (\<lambda>i. find_dataset k (running_sums a (x # xs)) i = k + j) [a..<a + x] =
        [a..<a + x]"
      using first 0 by (intro filter_True) simp
    moreover have "filter (\<lambda>i. find_dataset k (running_sums a (x # xs)) i = k + j)
        [a + x..<a + x + sum_list xs] = []"
      using second above 0 by (intro filter_False) fastforce
    ultimately show ?thesis
      unfolding split filter_append using 0 by simp
  next
    case (Suc j')
    have "filter (\<lambda>i. find_dataset k (running_sums a (x # xs)) i = k + j) [a..<a + x] = []"
      using first Suc by (intro filter_False) simp
    moreover have "filter (\<lambda>i. find_dataset k (running_sums a (x # xs)) i = k + j)
        [a + x..<a + x + sum_list xs] =
        filter (\<lambda>i. find_dataset (Suc k) (running_sums (a + x) xs) i = Suc k + j')
          [a + x..<a + x + sum_list xs]"
      using second Suc by (intro filter_cong) simp_all
    moreover from Cons.prems Suc have "j' < length xs" by simp
    ultimately show ?thesis
      unfolding split filter_append using Cons.IH [of j' "Suc k" "a + x"] Suc by simp
  qed
qed

subsection \<open>The visits of the loop\<close>

lemma multi_head_loop_visits:
  assumes "\<forall>i \<in> set idx_list. find_dataset 0 bounds i < length iters"
    and "\<forall>j < length iters.
           length (iters ! j) = length (filter (\<lambda>i. find_dataset 0 bounds i = j) idx_list)"
  shows "\<exists>visits.
       (\<forall>(body :: 's \<Rightarrow> nat \<Rightarrow> 'b \<Rightarrow> error + 's) s.
           multi_head_loop body bounds iters s idx_list = run_visits body s visits)
     \<and> map fst visits = map (find_dataset 0 bounds) idx_list
     \<and> (\<forall>j < length iters. map snd (filter (\<lambda>v. fst v = j) visits) = iters ! j)"
  using assms
proof (induction idx_list arbitrary: iters)
  case Nil
  then show ?case by (intro exI [of _ "[]"]) simp
next
  case (Cons i idx_list)
  define d where "d = find_dataset 0 bounds i"
  from Cons.prems have d: "d < length iters"
    and len_d: "length (iters ! d) = Suc (length (filter (\<lambda>i. find_dataset 0 bounds i = d) idx_list))"
    by (simp_all add: d_def)
  then obtain b rest where hd: "iters ! d = b # rest"
    and rest: "length rest = length (filter (\<lambda>i. find_dataset 0 bounds i = d) idx_list)"
    by (cases "iters ! d") auto
  define iters' where "iters' = iters[d := rest]"
  have draw: "next_batch iters d = Inr (b, iters')"
    using d hd by (simp add: next_batch_def iters'_def)
  have inv1: "\<forall>i \<in> set idx_list. find_dataset 0 bounds i < length iters'"
    using Cons.prems(1) by (simp add: iters'_def)
  have inv2: "\<forall>j < length iters'.
      length (iters' ! j) = length (filter (\<lambda>i. find_dataset 0 bounds i = j) idx_list)"
  proof (intro allI impI)
    fix j assume "j < length iters'"
    then have j: "j < length iters" by (simp add: iters'_def)
    show "length (iters' ! j) = length (filter (\<lambda>i. find_dataset 0 bounds i = j) idx_list)"
    proof (cases "j = d")
      case True
      with d rest show ?thesis by (simp add: iters'_def)
    next
      case False
      with Cons.prems(2) j show ?thesis by (simp add: iters'_def d_def)
    qed
  qed
  from Cons.IH [OF inv1 inv2] obtain visits'
    where run: "\<forall>(body :: 's \<Rightarrow> nat \<Rightarrow> 'b \<Rightarrow> error + 's) s.
                  multi_head_loop body bounds iters' s idx_list = run_visits body s visits'"
      and firsts: "map fst visits' = map (find_dataset 0 bounds) idx_list"
      and per_source: "\<forall>j < length iters'.
                         map snd (filter (\<lambda>v. fst v = j) visits') = iters' ! j"
    by blast
  have "\<forall>(body :: 's \<Rightarrow> nat \<Rightarrow> 'b \<Rightarrow> error + 's) s.
      multi_head_loop body bounds iters s (i # idx_list) =
      run_visits body s ((d, b) # visits')"
    using draw run by (simp add: d_def [symmetric] split: sum.splits)
  moreover have "map fst ((d, b) # visits') = map (find_dataset 0 bounds) (i # idx_list)"
    using firsts by (simp add: d_def)
  moreover have "\<forall>j < length iters.
      map snd (filter (\<lambda>v. fst v = j) ((d, b) # visits')) = iters ! j"
  proof (intro allI impI)
    fix j assume j: "j < length iters"
    then have "map snd (filter (\<lambda>v. fst v = j) visits') = iters' ! j"
      using per_source by (simp add: iters'_def)
    then show "map snd (filter (\<lambda>v. fst v = j) ((d, b) # visits')) = iters ! j"
      using j d hd by (cases "j = d") (auto simp: iters'_def)
  qed
  ultimately show ?case by blast
qed

lemma length_filter_permuted:
  "mset xs = mset ys \<Longrightarrow> length (filter P xs) = length (filter P ys)"
proof -
  assume "mset xs = mset ys"
  then have "mset (filter P xs) = mset (filter P ys)" by simp
  then show ?thesis by (rule mset_eq_length)
qed

lemma run_visits_record: "run_visits record_visit s visits = Inr (s @ visits)"
  by (induction visits arbitrary: s) (auto simp: record_visit_def)

text \<open>
  Claim C6. For a non-empty list of data sources and a shuffle that permutes its
  argument, one multi-head epoch is the body run over a sequence of visits (data set,
  batch) with these properties: there are as many visits as the source lengths sum to;
  the data set of the \<open>n\<close>-th visit is the first accumulated boundary that the \<open>n\<close>-th
  shuffled flat index is below, the boundaries being the running sums of the lengths; and
  the batches visited for each source are exactly that source's batches in their own
  order. For lengths 3 and 5 these are 8 visits, 3 of the first source and 5 of the
  second, each in sequence.
\<close>

theorem multi_head_epoch_visits:
  assumes "\<And>xs. mset (shuffle xs) = mset xs" and "dataloader_list \<noteq> []"
  shows "\<exists>visits.
       (\<forall>(body :: 's \<Rightarrow> nat \<Rightarrow> 'b \<Rightarrow> error + 's) s.
           multi_head_epoch shuffle body dataloader_list s = run_visits body s visits)
     \<and> length visits = sum_list (map length dataloader_list)
     \<and> accumulate_lengths (map length dataloader_list) =
         running_sums 0 (map length dataloader_list)
     \<and> map fst visits =
         map (find_dataset 0 (accumulate_lengths (map length dataloader_list)))
           (shuffle [0..<sum_list (map length dataloader_list)])
     \<and> (\<forall>j < length dataloader_list.
           map snd (filter (\<lambda>v. fst v = j) visits) = dataloader_list ! j)"
proof -
  define lens where "lens = map length dataloader_list"
  define bounds where "bounds = accumulate_lengths lens"
  define total where "total = sum_list lens"
  have lens: "lens \<noteq> []" "length lens = length dataloader_list"
    using assms(2) by (simp_all add: lens_def)
  have bounds: "bounds = running_sums 0 lens"
    by (simp add: bounds_def accumulate_lengths_running_sums)
  have last: "last bounds = total"
    using running_sums_last [OF lens(1), of 0] by (simp add: bounds total_def)
  define idx_list where "idx_list = shuffle [0..<total]"
  have perm: "mset idx_list = mset [0..<total]" by (simp add: idx_list_def assms(1))
  then have elems: "set idx_list = {0..<total}"
    using mset_eq_setD by fastforce
  have "\<forall>i \<in> set idx_list. find_dataset 0 bounds i < length dataloader_list"
    using find_dataset_range [of 0 _ lens 0] lens(2)
    by (simp add: elems bounds total_def)
  moreover have "\<forall>j < length dataloader_list.
      length (dataloader_list ! j) =
        length (filter (\<lambda>i. find_dataset 0 bounds i = j) idx_list)"
  proof (intro allI impI)
    fix j assume j: "j < length dataloader_list"
    have "length (filter (\<lambda>i. find_dataset 0 bounds i = j) idx_list) =
        length (filter (\<lambda>i. find_dataset 0 bounds i = j) [0..<total])"
      by (rule length_filter_permuted [OF perm])
    also have "\<dots> = lens ! j"
      using find_dataset_count [of j lens 0 0] j lens(2) by (simp add: bounds total_def)
    finally show "length (dataloader_list ! j) =
        length (filter (\<lambda>i. find_dataset 0 bounds i = j) idx_list)"
      using j by (simp add: lens_def)
  qed
  ultimately obtain visits
    where run: "\<forall>(body :: 's \<Rightarrow> nat \<Rightarrow> 'b \<Rightarrow> error + 's) s.
                  multi_head_loop body bounds dataloader_list s idx_list =
                  run_visits body s visits"
      and firsts: "map fst visits = map (find_dataset 0 bounds) idx_list"
      and per_source: "\<forall>j < length dataloader_list.
                         map snd (filter (\<lambda>v. fst v = j) visits) = dataloader_list ! j"
    using multi_head_loop_visits [of idx_list bounds dataloader_list] by blast
  have epoch: "multi_head_epoch shuffle body dataloader_list s =
      multi_head_loop body bounds dataloader_list s idx_list"
    for body :: "'s \<Rightarrow> nat \<Rightarrow> 'b \<Rightarrow> error + 's" and s
    using lens(1) last
    by (simp add: multi_head_epoch_def Let_def lens_def [symmetric] bounds_def [symmetric]
        idx_list_def) (simp add: bounds)
  from firsts have "length (map fst visits) = length (map (find_dataset 0 bounds) idx_list)"
    by simp
  then have "length visits = length idx_list" by simp
  also from mset_eq_length [OF perm] have "\<dots> = total" by simp
  finally have count: "length visits = total" .
  have "\<forall>(body :: 's \<Rightarrow> nat \<Rightarrow> 'b \<Rightarrow> error + 's) s.
      multi_head_epoch shuffle body dataloader_list s = run_visits body s visits"
    using run epoch by simp
  then show ?thesis
    using firsts per_source count bounds
    unfolding lens_def [symmetric] bounds_def [symmetric] total_def [symmetric]
      idx_list_def [symmetric]
    by (intro exI [of _ visits]) simp
qed

theorem multi_head_epoch_visits_witness:
  "\<exists>visits.
     multi_head_epoch rev record_visit [[10, 11, 12], [20, 21, 22, 23, 24 :: nat]] [] = Inr visits
   \<and> length visits = 8
   \<and> map snd (filter (\<lambda>v. fst v = 0) visits) = [10, 11, 12]
   \<and> map snd (filter (\<lambda>v. fst v = 1) visits) = [20, 21, 22, 23, 24]"
proof -
  have permutes: "\<And>xs :: nat list. mset (rev xs) = mset xs" by simp
  have nonempty: "[[10, 11, 12], [20, 21, 22, 23, 24 :: nat]] \<noteq> []" by simp
  from multi_head_epoch_visits [where 's = "(nat \<times> nat) list" and shuffle = rev
      and dataloader_list = "[[10, 11, 12], [20, 21, 22, 23, 24 :: nat]]", OF permutes nonempty]
  obtain visits :: "(nat \<times> nat) list"
    where run: "\<forall>(body :: (nat \<times> nat) list \<Rightarrow> nat \<Rightarrow> nat \<Rightarrow> error + (nat \<times> nat) list) s.
        multi_head_epoch rev body [[10, 11, 12], [20, 21, 22, 23, 24]] s = run_visits body s visits"
      and count: "length visits = sum_list (map length [[10, 11, 12], [20, 21, 22, 23, 24 :: nat]])"
      and per_source: "\<forall>j < length [[10, 11, 12], [20, 21, 22, 23, 24 :: nat]].
          map snd (filter (\<lambda>v. fst v = j) visits) = [[10, 11, 12], [20, 21, 22, 23, 24]] ! j"
    by blast
  have r1: "multi_head_epoch rev record_visit [[10, 11, 12], [20, 21, 22, 23, 24]] [] =
      Inr visits"
    using run [rule_format, of record_visit "[]"] by (simp only: run_visits_record append_Nil)
  have r2: "length visits = 8" using count by simp
  have r3: "map snd (filter (\<lambda>v. fst v = 0) visits) = [10, 11, 12]"
    using per_source [rule_format, of 0] by simp
  have r4: "map snd (filter (\<lambda>v. fst v = 1) visits) = [20, 21, 22, 23, 24]"
    using per_source [rule_format, of 1] by simp
  show ?thesis
    by (rule exI [of _ visits]) (simp only: r1 r2 r3 r4 simp_thms)
qed

section \<open>Properties of loading\<close>

lemma Potential_fields:
  assumes "scheduler_arg = Name ''StepLR'' \<or> (\<exists>sch. scheduler_arg = Instance sch)"
  shows "\<exists>self. Potential w margs mode optimizer_arg scheduler_arg ema_arg kw = Inr self
     \<and> params self = w \<and> model_args self = margs \<and> training self = mode
     \<and> optimizer self =
         (case optimizer_arg of
            None \<Rightarrow> Adam (get_or (kw_lr kw) (1 / 1000)) (1 / 10000000) None
          | Some opt \<Rightarrow> opt)
     \<and> scheduler self =
         (case scheduler_arg of
            Instance sch \<Rightarrow> sch
          | Name n \<Rightarrow> StepLR (get_or (kw_step_size kw) 10) (get_or (kw_gamma kw) (95 / 100)) None)
     \<and> ema self =
         (case ema_arg of
            None \<Rightarrow> ExponentialMovingAverage w (get_or (kw_ema_decay kw) (99 / 100))
          | Some avg \<Rightarrow> avg)
     \<and> model_name self = get_or (kw_model_name kw) ''m3gnet''
     \<and> last_epoch self = get_or (kw_last_epoch kw) (- 1)
     \<and> validation_metrics self = get_or (kw_validation_metrics kw) [(''loss'', 10000)]
     \<and> description self = get_or (kw_description kw) []"
  using assms by (auto simp: Potential_def Let_def)

text \<open>
  Claim C7, as the code has it. A checkpoint that can be read, names the requested model
  (\<open>m3gnet\<close> or \<open>m3gnet_multi_head\<close>) and holds constructor arguments and weights that the
  model accepts is loaded without an exception, with the weights restored from its model
  entry, whatever its other entries are. When the optimizer cannot be restored (directly
  or through \<open>state_dict()\<close>) the optimizer handed to the constructor is \<open>None\<close>, and the
  object returned holds the Adam optimizer the constructor builds for \<open>None\<close> (learning
  rate from the keyword arguments or 0.001, epsilon 1e-7). When the scheduler cannot be
  restored the object holds a fresh StepLR scheduler (step size 10, factor 0.95 unless
  given). When the epoch, the metrics or the description is missing, the epoch is -1,
  the metrics are \<open>{"loss": 0.0}\<close> and the description is empty. When the moving average
  cannot be restored the moving average handed to the constructor is \<open>None\<close>, and the
  object holds a fresh moving average of the restored weights (decay 0.99 unless given).
\<close>

theorem load_degraded_restore:
  assumes "files f p = Some checkpoint"
    and "ck_model_name checkpoint = Some name"
    and "name = ''m3gnet'' \<or> name = ''m3gnet_multi_head''"
    and "ck_model_args checkpoint = Some margs"
    and "build_model env name margs = Inr w0"
    and "ck_model checkpoint = Some sd"
    and "load_state_dict env w0 sd = Inr w"
    and "kw_model_name kw = None" and "kw_last_epoch kw = None"
    and "kw_validation_metrics kw = None" and "kw_description kw = None"
  shows "\<exists>self. load env f name (Some p) True kw = Inr self
     \<and> params self = w \<and> model_name self = name
     \<and> (restore (optimizer_load_state_dict env) (Adam (1 / 1000) (1 / 100000000) None)
           (ck_optimizer checkpoint) = None \<longrightarrow>
         ts_optimizer (restore_training_state env checkpoint w True) = None
         \<and> optimizer self = Adam (get_or (kw_lr kw) (1 / 1000)) (1 / 10000000) None)
     \<and> (restore (scheduler_load_state_dict env) (StepLR 10 (95 / 100) None)
           (ck_scheduler checkpoint) = None \<longrightarrow>
         ts_scheduler (restore_training_state env checkpoint w True) = Name ''StepLR''
         \<and> scheduler self =
             StepLR (get_or (kw_step_size kw) 10) (get_or (kw_gamma kw) (95 / 100)) None)
     \<and> (ck_last_epoch checkpoint = None \<or> ck_validation_metrics checkpoint = None
           \<or> ck_description checkpoint = None \<longrightarrow>
         last_epoch self = - 1 \<and> validation_metrics self = [(''loss'', 0)]
         \<and> description self = [])
     \<and> ((\<forall>avg. load_direct (ema_load_state_dict env) (ExponentialMovingAverage w (99 / 100))
                  (ck_ema checkpoint) \<noteq> Inr avg) \<longrightarrow>
         ts_ema (restore_training_state env checkpoint w True) = None
         \<and> ema self = ExponentialMovingAverage w (get_or (kw_ema_decay kw) (99 / 100)))"
proof -
  define ts where "ts = restore_training_state env checkpoint w True"
  define kw' where "kw' = kw\<lparr>kw_model_name := Some name,
                         kw_last_epoch := Some (ts_last_epoch ts),
                         kw_validation_metrics := Some (ts_validation_metrics ts),
                         kw_description := Some (ts_description ts)\<rparr>"
  have call: "load env f name (Some p) True kw =
      Potential w margs False (ts_optimizer ts) (ts_scheduler ts) (ts_ema ts) kw'"
    using assms by (auto simp: load_def and_then_def Let_def ts_def kw'_def)
  have sched: "ts_scheduler ts = Name ''StepLR'' \<or> (\<exists>sch. ts_scheduler ts = Instance sch)"
    by (simp add: ts_def restore_training_state_def split: option.splits)
  have kw': "kw_lr kw' = kw_lr kw" "kw_step_size kw' = kw_step_size kw"
    "kw_gamma kw' = kw_gamma kw" "kw_ema_decay kw' = kw_ema_decay kw"
    "get_or (kw_model_name kw') ''m3gnet'' = name"
    "get_or (kw_last_epoch kw') (- 1) = ts_last_epoch ts"
    "get_or (kw_validation_metrics kw') [(''loss'', 10000)] = ts_validation_metrics ts"
    "get_or (kw_description kw') [] = ts_description ts"
    by (simp_all add: kw'_def get_or_def)
  from Potential_fields [OF sched, of w margs False "ts_optimizer ts" "ts_ema ts" kw',
      unfolded kw']
  obtain self where self: "load env f name (Some p) True kw = Inr self"
    "params self = w"
    "optimizer self =
         (case ts_optimizer ts of
            None \<Rightarrow> Adam (get_or (kw_lr kw) (1 / 1000)) (1 / 10000000) None
          | Some opt \<Rightarrow> opt)"
    "scheduler self =
         (case ts_scheduler ts of
            Instance sch \<Rightarrow> sch
          | Name n \<Rightarrow> StepLR (get_or (kw_step_size kw) 10) (get_or (kw_gamma kw) (95 / 100)) None)"
    "ema self =
         (case ts_ema ts of
            None \<Rightarrow> ExponentialMovingAverage w (get_or (kw_ema_decay kw) (99 / 100))
          | Some avg \<Rightarrow> avg)"
    "model_name self = name"
    "last_epoch self = ts_last_epoch ts"
    "validation_metrics self = ts_validation_metrics ts"
    "description self = ts_description ts"
    unfolding call by blast
  have opt: "ts_optimizer ts = None"
    if "restore (optimizer_load_state_dict env) (Adam (1 / 1000) (1 / 100000000) None)
           (ck_optimizer checkpoint) = None"
    using that by (simp add: ts_def restore_training_state_def)
  have sch: "ts_scheduler ts = Name ''StepLR''"
    if "restore (scheduler_load_state_dict env) (StepLR 10 (95 / 100) None)
           (ck_scheduler checkpoint) = None"
    using that by (simp add: ts_def restore_training_state_def)
  have meta: "ts_last_epoch ts = - 1 \<and> ts_validation_metrics ts = [(''loss'', 0)]
      \<and> ts_description ts = []"
    if "ck_last_epoch checkpoint = None \<or> ck_validation_metrics checkpoint = None
           \<or> ck_description checkpoint = None"
    using that by (auto simp: ts_def restore_training_state_def split: option.splits)
  have avg: "ts_ema ts = None"
    if "\<forall>avg. load_direct (ema_load_state_dict env) (ExponentialMovingAverage w (99 / 100))
                  (ck_ema checkpoint) \<noteq> Inr avg"
    using that by (simp add: ts_def restore_training_state_def split: sum.splits)
  show ?thesis
    using self opt sch meta avg
    unfolding ts_def [symmetric]
    by (intro exI [of _ self]) simp
qed

lemma demo_damaged_restores:
  "restore (optimizer_load_state_dict demo_loader) (Adam (1 / 1000) (1 / 100000000) None)
     (ck_optimizer demo_damaged) = None"
  "restore (scheduler_load_state_dict demo_loader) (StepLR 10 (95 / 100) None)
     (ck_scheduler demo_damaged) = None"
  "load_direct (ema_load_state_dict demo_loader) (ExponentialMovingAverage w (99 / 100))
     (ck_ema demo_damaged) = Inl TypeError"
  by (simp_all add: restore_def load_direct_def load_via_state_dict_def demo_damaged_def)

theorem load_degraded_restore_witness:
  "\<exists>self. load demo_loader demo_damaged_fs ''m3gnet'' (Some (''results'', Last_model)) True
             no_kwargs = Inr self
     \<and> params self = 5
     \<and> optimizer self = Adam (1 / 1000) (1 / 10000000) None
     \<and> scheduler self = StepLR 10 (95 / 100) None
     \<and> last_epoch self = - 1 \<and> validation_metrics self = [(''loss'', 0)]
     \<and> description self = []
     \<and> ema self = ExponentialMovingAverage 5 (99 / 100)"
proof -
  have "files demo_damaged_fs (''results'', Last_model) = Some demo_damaged"
    and "ck_model_name demo_damaged = Some ''m3gnet''"
    and "''m3gnet'' = ''m3gnet'' \<or> ''m3gnet'' = ''m3gnet_multi_head''"
    and "ck_model_args demo_damaged = Some ()"
    and "build_model demo_loader ''m3gnet'' () = Inr 0"
    and "ck_model demo_damaged = Some 5"
    and "load_state_dict demo_loader 0 5 = Inr 5"
    and "kw_model_name no_kwargs = None" and "kw_last_epoch no_kwargs = None"
    and "kw_validation_metrics no_kwargs = None" and "kw_description no_kwargs = None"
    by (simp_all add: demo_damaged_fs_def demo_damaged_def demo_loader_def no_kwargs_def)
  from load_degraded_restore [OF this]
  obtain self where "load demo_loader demo_damaged_fs ''m3gnet'' (Some (''results'', Last_model))
        True no_kwargs = Inr self"
    and "params self = 5"
    and "optimizer self = Adam (get_or (kw_lr no_kwargs) (1 / 1000)) (1 / 10000000) None"
    and "scheduler self = StepLR (get_or (kw_step_size no_kwargs) 10)
           (get_or (kw_gamma no_kwargs) (95 / 100)) None"
    and "last_epoch self = - 1 \<and> validation_metrics self = [(''loss'', 0)]
           \<and> description self = []"
    and "ema self = ExponentialMovingAverage 5 (get_or (kw_ema_decay no_kwargs) (99 / 100))"
    using demo_damaged_restores by (auto simp: demo_damaged_def)
  then show ?thesis
    by (intro exI [of _ self]) (simp add: no_kwargs_def get_or_def)
qed

text \<open>The claim as stated fails on the record above: its optimizer entry restores neither
  way, and the object \<open>load\<close> returns holds an Adam optimizer and a moving average, not
  \<open>None\<close>.\<close>

theorem load_corrupted_optimizer_counterexample:
  "restore (optimizer_load_state_dict demo_loader) (Adam (1 / 1000) (1 / 100000000) None)
     (ck_optimizer demo_damaged) = None
   \<and> map_sum id optimizer
       (load demo_loader demo_damaged_fs ''m3gnet'' (Some (''results'', Last_model)) True
          no_kwargs)
     = Inr (Adam (1 / 1000) (1 / 10000000) None)
   \<and> map_sum id ema
       (load demo_loader demo_damaged_fs ''m3gnet'' (Some (''results'', Last_model)) True
          no_kwargs)
     = Inr (ExponentialMovingAverage 5 (99 / 100))"
  by (simp add: load_def and_then_def Let_def demo_damaged_fs_def demo_loader_def
      demo_damaged_def restore_training_state_def restore_def load_direct_def
      load_via_state_dict_def no_kwargs_def Potential_def get_or_def)

end
